theory Spec2Isabelle
  imports Main "HOL-Library.AList"
begin

section \<open>JavaScript values used by the requestors\<close>

text \<open>
  The webhook requestors of \<^verbatim>\<open>lib/utils\<close> exchange JSON documents. A document is a
  \<open>json\<close> value; an object keeps its entries in insertion order, as a JavaScript object
  does. A JavaScript number that the modelled code computes with is an \<open>int option\<close>,
  \<open>None\<close> standing for \<^verbatim>\<open>NaN\<close>.
\<close>

datatype json =
    JNull
  | JBool bool
  | JNum int
  | JStr string
  | JArr "json list"
  | JObj "(string \<times> json) list"

text \<open>What a \<^verbatim>\<open>throw\<close> or a rejected promise carries.\<close>

datatype js_error =
    AssertionError
  | TypeError
  | SyntaxError
  | HTTPResponseError int
  | UpgradeError int
  | TransportError string
  | Message string

text \<open>Truthiness of a JSON value, as \<^verbatim>\<open>!x\<close>, \<^verbatim>\<open>x && y\<close> and \<^verbatim>\<open>assert.ok(x)\<close> see it.\<close>

fun js_truthy :: "json \<Rightarrow> bool" where
  "js_truthy JNull = False"
| "js_truthy (JBool b) = b"
| "js_truthy (JNum n) = (n \<noteq> 0)"
| "js_truthy (JStr s) = (s \<noteq> [])"
| "js_truthy (JArr _) = True"
| "js_truthy (JObj _) = True"

definition startsWith :: "string \<Rightarrow> string \<Rightarrow> bool" where
  "startsWith s p = (take (length p) s = p)"

definition js_includes :: "string \<Rightarrow> string \<Rightarrow> bool" where
  "js_includes s p = list_ex (\<lambda>i. take (length p) (drop i s) = p) [0..<Suc (length s)]"

subsection \<open>\<^verbatim>\<open>parseInt\<close>, \<^verbatim>\<open>Math.abs\<close>, \<^verbatim>\<open>Math.min\<close>\<close>

text \<open>
  \<^verbatim>\<open>parseInt(string)\<close> with no radix: leading white space is skipped, a sign is read, a
  \<^verbatim>\<open>0x\<close> prefix selects radix 16, and the longest prefix of digits is the value; with no
  digit the result is \<^verbatim>\<open>NaN\<close>. Strings are byte strings here, so only the ASCII white
  space characters are skipped, and the value is the exact integer (a double rounds
  integers beyond \<open>2^53\<close>, which are far above every bound the requestors compare with).
\<close>

definition isWhiteSpace :: "char \<Rightarrow> bool" where
  "isWhiteSpace c = ((of_char c :: nat) \<in> {9, 10, 11, 12, 13, 32})"

definition digitValue :: "char \<Rightarrow> nat option" where
  "digitValue c =
     (let n = (of_char c :: nat) in
      if 48 \<le> n \<and> n \<le> 57 then Some (n - 48)
      else if 97 \<le> n \<and> n \<le> 102 then Some (n - 87)
      else if 65 \<le> n \<and> n \<le> 70 then Some (n - 55)
      else None)"

definition isRadixDigit :: "nat \<Rightarrow> char \<Rightarrow> bool" where
  "isRadixDigit R c = (case digitValue c of Some d \<Rightarrow> d < R | None \<Rightarrow> False)"

definition digitsValue :: "nat \<Rightarrow> string \<Rightarrow> nat" where
  "digitsValue R Z = foldl (\<lambda>a c. a * R + (case digitValue c of Some d \<Rightarrow> d | None \<Rightarrow> 0)) 0 Z"

definition parseInt :: "string \<Rightarrow> int option" where
  "parseInt str =
     (let S = dropWhile isWhiteSpace str;
          sign = (if take 1 S = ''-'' then - 1 else 1);
          S1 = (if take 1 S = ''-'' \<or> take 1 S = ''+'' then drop 1 S else S);
          hex = (take 2 S1 = ''0x'' \<or> take 2 S1 = ''0X'');
          R = (if hex then 16 else 10);
          S2 = (if hex then drop 2 S1 else S1);
          Z = takeWhile (isRadixDigit R) S2
      in if Z = [] then None else Some (sign * int (digitsValue R Z)))"

text \<open>\<^verbatim>\<open>parseInt(x)\<close> of a property that may be \<^verbatim>\<open>undefined\<close>: \<^verbatim>\<open>parseInt(undefined)\<close> is \<^verbatim>\<open>NaN\<close>.\<close>

definition parseInt_prop :: "string option \<Rightarrow> int option" where
  "parseInt_prop v = (case v of None \<Rightarrow> None | Some s \<Rightarrow> parseInt s)"

text \<open>\<^verbatim>\<open>a || b\<close> on numbers: \<^verbatim>\<open>0\<close> and \<^verbatim>\<open>NaN\<close> are falsy.\<close>

definition num_or :: "int option \<Rightarrow> int option \<Rightarrow> int option" where
  "num_or a b = (case a of None \<Rightarrow> b | Some n \<Rightarrow> if n = 0 then b else Some n)"

definition Math_abs :: "int option \<Rightarrow> int option" where
  "Math_abs a = map_option abs a"

definition Math_min :: "int option \<Rightarrow> int \<Rightarrow> int option" where
  "Math_min a b = map_option (\<lambda>n. min n b) a"

text \<open>\<^verbatim>\<open>i <= n\<close> on numbers: every comparison with \<^verbatim>\<open>NaN\<close> is false.\<close>

definition num_le :: "nat \<Rightarrow> int option \<Rightarrow> bool" where
  "num_le i n = (case n of None \<Rightarrow> False | Some m \<Rightarrow> int i \<le> m)"

section \<open>Hooks, configuration and the parts of the repository outside these files\<close>

text \<open>
  A hook is a bare URL or an object \<^verbatim>\<open>{url, method?, username?, password?}\<close>. A hook object
  carries its url (the documented contract of \<^verbatim>\<open>request\<close>), so \<^verbatim>\<open>hook.url || hook\<close> is a
  string in both cases.
\<close>

record hook_obj =
  h_url :: string
  h_method :: "string option"
  h_username :: "string option"
  h_password :: "string option"

datatype hook = HookUrl string | HookObj hook_obj

definition hook_url :: "hook \<Rightarrow> string" where
  "hook_url hook = (case hook of HookUrl u \<Rightarrow> u | HookObj h \<Rightarrow> h_url h)"

text \<open>\<^verbatim>\<open>typeof hook === 'object' ? hook : {url: hook}\<close>\<close>

definition hook_object :: "hook \<Rightarrow> hook_obj" where
  "hook_object hook =
     (case hook of
        HookObj h \<Rightarrow> h
      | HookUrl u \<Rightarrow> \<lparr>h_url = u, h_method = None, h_username = None, h_password = None\<rparr>)"

type_synonym params = "(string \<times> json) list option"
type_synonym headers = "(string \<times> string) list"

text \<open>What \<^verbatim>\<open>parse-url\<close> returns, as far as the requestors read it.\<close>

record parsed_url =
  p_protocol :: string
  p_resource :: string
  p_port :: string
  p_pathname :: string
  p_query :: "(string \<times> string) list"
  p_hash :: string

text \<open>A value of \<^verbatim>\<open>lib/config\<close> that comes from the process environment.\<close>

datatype envval = Unset | EnvStr string | EnvNum int

text \<open>
  The modules \<^verbatim>\<open>../config\<close>, \<^verbatim>\<open>./constants.json\<close> and \<^verbatim>\<open>./base-requestor\<close> and the packages
  \<^verbatim>\<open>parse-url\<close> and \<^verbatim>\<open>to-snake-case\<close> are not among the files verified here. What the
  requestors read from them is a parameter of the model: the configuration values, the
  list \<^verbatim>\<open>HookMsgTypes\<close>, and the functions \<^verbatim>\<open>_shouldRetry\<close>, \<^verbatim>\<open>_parseHashParams\<close>,
  \<^verbatim>\<open>parseUrl\<close> (which throws on a string it cannot parse) and \<^verbatim>\<open>snakeCase\<close>.
\<close>

record env =
  HookMsgTypes :: "string list"
  HTTP_POOL :: envval
  HTTP_PROXY_IP :: "string option"
  HTTP_USER_AGENT_HEADER :: "string option"
  MAX_RECONNECTS :: "int option"
  JAMBONES_WS_PING_INTERVAL_MS :: "int option"
  shouldRetry :: "js_error \<Rightarrow> string list \<Rightarrow> bool"
  parseHashParams :: "string \<Rightarrow> (string \<times> string) list"
  parseUrl :: "string \<Rightarrow> js_error + parsed_url"
  snakeCase :: "string \<Rightarrow> string"

text \<open>
  Modelled from the spec: \<^verbatim>\<open>BaseRequestor._isAbsoluteUrl\<close> is defined in
  \<^verbatim>\<open>./base-requestor\<close>, which is not among the files. The spec recognises four URL schemes
  (\<^verbatim>\<open>http\<close>, \<^verbatim>\<open>https\<close>, \<^verbatim>\<open>ws\<close>, \<^verbatim>\<open>wss\<close>) for an absolute URL.
\<close>

definition isAbsoluteUrl :: "string \<Rightarrow> bool" where
  "isAbsoluteUrl u =
     (startsWith u ''https://'' \<or> startsWith u ''http://'' \<or>
      startsWith u ''ws://'' \<or> startsWith u ''wss://'')"

text \<open>
  Modelled from the spec: \<^verbatim>\<open>BaseRequestor._isRelativeUrl\<close>, from the same missing file. In
  the spec a URL is absolute or relative, and a relative one resolves against the base URL.
\<close>

definition isRelativeUrl :: "string \<Rightarrow> bool" where
  "isRelativeUrl u = (\<not> isAbsoluteUrl u)"

text \<open>\<^verbatim>\<open>s.split(',').map((v) => v.trim())\<close>\<close>

fun split_on :: "char \<Rightarrow> string \<Rightarrow> string \<Rightarrow> string list" where
  "split_on sep acc [] = [rev acc]"
| "split_on sep acc (c # cs) =
     (if c = sep then rev acc # split_on sep [] cs else split_on sep (c # acc) cs)"

definition trim :: "string \<Rightarrow> string" where
  "trim s = rev (dropWhile isWhiteSpace (rev (dropWhile isWhiteSpace s)))"

definition retryPolicyValues_of :: "string option \<Rightarrow> string list" where
  "retryPolicyValues_of rp =
     (let retryPolicy = (case rp of None \<Rightarrow> ''ct'' | Some v \<Rightarrow> if v = [] then ''ct'' else v)
      in map trim (split_on (CHR '','') [] retryPolicy))"

text \<open>
  Modelled from the spec: \<^verbatim>\<open>snakeCaseKeys(params, excludes)\<close> is defined in
  \<^verbatim>\<open>./snakecase-keys\<close>, which is not among the files. By the spec the body is the
  snake-cased encoding of \<^verbatim>\<open>params\<close> except for the excluded fields, whose inner keys are
  preserved as they are: the key of every entry is snake-cased, at every depth, and the
  value of an excluded field is taken over unchanged. The result is a JavaScript
  object, so when two entries get the same key the later value replaces the earlier.
\<close>

fun snakeCaseValue :: "(string \<Rightarrow> string) \<Rightarrow> string list \<Rightarrow> json \<Rightarrow> json"
  and snakeCaseEntries ::
    "(string \<Rightarrow> string) \<Rightarrow> string list \<Rightarrow> (string \<times> json) list \<Rightarrow> (string \<times> json) list \<Rightarrow>
      (string \<times> json) list"
  and snakeCaseItems :: "(string \<Rightarrow> string) \<Rightarrow> string list \<Rightarrow> json list \<Rightarrow> json list"
where
  "snakeCaseValue sc ex (JObj kvs) = JObj (snakeCaseEntries sc ex kvs [])"
| "snakeCaseValue sc ex (JArr xs) = JArr (snakeCaseItems sc ex xs)"
| "snakeCaseValue sc ex JNull = JNull"
| "snakeCaseValue sc ex (JBool b) = JBool b"
| "snakeCaseValue sc ex (JNum n) = JNum n"
| "snakeCaseValue sc ex (JStr s) = JStr s"
| "snakeCaseEntries sc ex [] acc = acc"
| "snakeCaseEntries sc ex ((k, v) # kvs) acc =
     snakeCaseEntries sc ex kvs
       (if k \<in> set ex then AList.update k v acc
        else AList.update (sc k) (snakeCaseValue sc ex v) acc)"
| "snakeCaseItems sc ex [] = []"
| "snakeCaseItems sc ex (x # xs) = snakeCaseValue sc ex x # snakeCaseItems sc ex xs"

definition snakeCaseKeys ::
  "(string \<Rightarrow> string) \<Rightarrow> (string \<times> json) list \<Rightarrow> string list \<Rightarrow> (string \<times> json) list" where
  "snakeCaseKeys sc obj excludes = snakeCaseEntries sc excludes obj []"

text \<open>The excluded fields, as both requestors pass them.\<close>

definition EXCLUDES :: "string list" where
  "EXCLUDES = [''customerData'', ''sip'', ''env_vars'', ''args'']"

definition payload_of :: "env \<Rightarrow> params \<Rightarrow> params" where
  "payload_of env params =
     (case params of None \<Rightarrow> None | Some p \<Rightarrow> Some (snakeCaseKeys (snakeCase env) p EXCLUDES))"


section \<open>Results and effects of a request\<close>

text \<open>
  A requestor built for a handover, by the arguments its constructor is given:
  \<^verbatim>\<open>new HttpRequestor(logger, account_sid, h, secret)\<close> and
  \<^verbatim>\<open>new WsRequestor(logger, account_sid, h, secret)\<close>.
\<close>

datatype requestor =
    NewHttpRequestor string hook_obj string
  | NewWsRequestor string hook_obj string

text \<open>
  \<^verbatim>\<open>request\<close> is an \<^verbatim>\<open>async\<close> function. \<open>Returned_undefined\<close> is a bare \<^verbatim>\<open>return\<close>,
  \<open>Returned v\<close> the value returned (\<open>None\<close> for \<^verbatim>\<open>null\<close>), \<open>Returned_promise p\<close> a promise
  that is settled later, \<open>Thrown e\<close> a \<^verbatim>\<open>throw\<close> or a rejection, and \<open>Delegated\<close> the
  \<^verbatim>\<open>return requestor.request(type, hook, params, httpHeaders, span)\<close> of a handover.
  \<open>Unsettled\<close> is a call that stays suspended at an \<^verbatim>\<open>await\<close> whose promise nothing settles.
\<close>

datatype result =
    Returned_undefined
  | Returned "json option"
  | Returned_promise nat
  | Thrown js_error
  | Delegated requestor string hook params headers
  | Unsettled

text \<open>The frame \<^verbatim>\<open>{type, msgid, call_sid, hook, data, b3}\<close> the WebSocket requestor sends.\<close>

record frame =
  f_type :: string
  f_msgid :: string
  f_call_sid :: "json option"
  f_hook :: "string option"
  f_data :: "(string \<times> json) list"
  f_b3 :: "string option"

datatype event =
    Handover requestor
  | Socket_closed
  | Connection_dropped
  | Connection_failure
  | Ready
  | Not_ready js_error
  | Command "json option" json "json option" json "json option" "json option"
  | Reconnect_error

text \<open>What a call does to the outside, in the order it does it.\<close>

datatype effect =
    WsSend frame
  | WsClose "int option"
  | Emit event
  | ScheduleReconnect int
  | WriteAlert
  | Connect
  | MakeRequest
  | Sleep int
  | HttpClose

section \<open>The WebSocket requestor (\<^verbatim>\<open>lib/utils/ws-requestor.js\<close>)\<close>

text \<open>
  An entry of \<^verbatim>\<open>messagesInFlight\<close> is \<^verbatim>\<open>{timer, success, failure}\<close>. The two closures are
  determined by the timer they clear and by the promise whose \<^verbatim>\<open>resolve\<close> and \<^verbatim>\<open>reject\<close>
  they call, so an entry is kept as that pair.
\<close>

record inflight =
  timer :: nat
  promise :: nat

record queued_msg =
  q_type :: string
  q_hook :: hook
  q_params :: params
  q_httpHeaders :: headers
  q_promise :: "nat option"

datatype outcome = Pending | Resolved "json option" | Rejected js_error

text \<open>
  The state of a \<^verbatim>\<open>WsRequestor\<close>, with the promises and response timers it has created.
  \<^item> \<open>ws_url\<close>, \<open>ws_account_sid\<close> and \<open>ws_secret\<close> are \<^verbatim>\<open>this.url\<close>, \<^verbatim>\<open>this.account_sid\<close> and
    \<^verbatim>\<open>this.secret\<close>.
  \<^item> \<open>ws\<close> is the live socket or \<^verbatim>\<open>null\<close>.
  \<^item> \<open>messagesInFlight\<close> is the \<^verbatim>\<open>Map\<close>, in insertion order; a key may hold \<^verbatim>\<open>undefined\<close>
    (\<open>None\<close>), which the re-keying of \<^verbatim>\<open>request\<close> can store.
  \<^item> \<open>isBinary\<close> is the property \<^verbatim>\<open>this.isBinary\<close> that \<^verbatim>\<open>_onMessage\<close> reads. No method
    assigns it, so it is \<^verbatim>\<open>undefined\<close>, that is falsy, from construction on.
  \<^item> \<open>reconnectPromise\<close> is \<^verbatim>\<open>_reconnectPromise\<close>; \<^verbatim>\<open>_reconnectResolve\<close> and
    \<^verbatim>\<open>_reconnectReject\<close> are its resolvers, set and cleared together with it.
  \<^item> \<open>promises\<close> holds the state of every promise, \<open>timers\<close> the pending response timers,
    each with the \<^verbatim>\<open>msgid\<close> its callback has captured; \<open>nextHandle\<close> is the next unused
    handle for either.
\<close>

record ws_requestor =
  ws_url :: string
  ws_account_sid :: string
  ws_secret :: string
  ws :: "nat option"
  connections :: nat
  messagesInFlight :: "(string \<times> inflight option) list"
  maliciousClient :: bool
  closedGracefully :: bool
  backoffMs :: int
  connectInProgress :: bool
  queuedMsg :: "queued_msg list"
  maxReconnects :: "int option"
  retryPolicyValues :: "string list"
  isBinary :: bool
  call_sid :: "json option"
  sessionData :: params
  initMsgId :: "string option"
  reconnectPromise :: "nat option"
  pingTimer :: bool
  promises :: "nat \<Rightarrow> outcome"
  timers :: "nat \<Rightarrow> string option"
  nextHandle :: nat

definition MTYPE_WANTS_ACK :: "string list" where
  "MTYPE_WANTS_ACK =
     [''call:status'', ''verb:status'', ''jambonz:error'', ''llm:event'', ''llm:tool-call'',
      ''tts:streaming-event'', ''tts:tokens-result'']"

definition MTYPE_NO_DATA :: "string list" where
  "MTYPE_NO_DATA = [''llm:tool-output'', ''tts:flush'', ''tts:clear'']"

text \<open>\<^verbatim>\<open>const wantsAck = !MTYPE_WANTS_ACK.includes(type)\<close>\<close>

definition wantsAck :: "string \<Rightarrow> bool" where
  "wantsAck type = (type \<notin> set MTYPE_WANTS_ACK)"

text \<open>\<^verbatim>\<open>Math.min(Math.abs(parseInt(hashObj.rc) || MAX_RECONNECTS), 5)\<close>\<close>

definition ws_maxReconnects :: "env \<Rightarrow> string option \<Rightarrow> int option" where
  "ws_maxReconnects env rc = Math_min (Math_abs (num_or (parseInt_prop rc) (MAX_RECONNECTS env))) 5"

text \<open>The constructor; \<^verbatim>\<open>this.url\<close>, \<^verbatim>\<open>account_sid\<close> and \<^verbatim>\<open>secret\<close> are set by \<^verbatim>\<open>BaseRequestor\<close>.\<close>

definition WsRequestor :: "env \<Rightarrow> string \<Rightarrow> hook_obj \<Rightarrow> string \<Rightarrow> js_error + ws_requestor" where
  "WsRequestor env acct hook sec =
     (if \<not> isAbsoluteUrl (h_url hook) then Inl AssertionError
      else (case parseUrl env (h_url hook) of
              Inl e \<Rightarrow> Inl e
            | Inr parsedUrl \<Rightarrow>
                (let hash = p_hash parsedUrl;
                     hashObj = (if hash \<noteq> [] then parseHashParams env hash else [])
                 in Inr \<lparr>ws_url = h_url hook, ws_account_sid = acct, ws_secret = sec, ws = None,
                         connections = 0, messagesInFlight = [], maliciousClient = False,
                         closedGracefully = False, backoffMs = 500, connectInProgress = False,
                         queuedMsg = [],
                         maxReconnects = ws_maxReconnects env (map_of hashObj ''rc''),
                         retryPolicyValues = retryPolicyValues_of (map_of hashObj ''rp''),
                         isBinary = False, call_sid = None, sessionData = None,
                         initMsgId = None, reconnectPromise = None, pingTimer = False,
                         promises = (\<lambda>_. Pending), timers = (\<lambda>_. None), nextHandle = 0\<rparr>)))"

subsection \<open>Promises, timers and the table of messages in flight\<close>

text \<open>\<^verbatim>\<open>this.messagesInFlight.get(msgid)\<close>: \<^verbatim>\<open>undefined\<close> for a missing key and for a key that holds \<^verbatim>\<open>undefined\<close>.\<close>

definition mif_get :: "ws_requestor \<Rightarrow> string \<Rightarrow> inflight option" where
  "mif_get s msgid = (case map_of (messagesInFlight s) msgid of None \<Rightarrow> None | Some v \<Rightarrow> v)"

definition clearTimeout :: "nat \<Rightarrow> ws_requestor \<Rightarrow> ws_requestor" where
  "clearTimeout t s = s\<lparr>timers := (timers s)(t := None)\<rparr>"

text \<open>\<^verbatim>\<open>resolve\<close> and \<^verbatim>\<open>reject\<close>: a promise is settled once, later calls change nothing.\<close>

definition settle :: "nat \<Rightarrow> outcome \<Rightarrow> ws_requestor \<Rightarrow> ws_requestor" where
  "settle p out s = (if promises s p = Pending then s\<lparr>promises := (promises s)(p := out)\<rparr> else s)"

text \<open>The \<^verbatim>\<open>success\<close> and \<^verbatim>\<open>failure\<close> closures of an entry.\<close>

definition success :: "inflight \<Rightarrow> json option \<Rightarrow> ws_requestor \<Rightarrow> ws_requestor" where
  "success e response s =
     (let s1 = settle (promise e) (Resolved response) (clearTimeout (timer e) s)
      in case reconnectPromise s1 of None \<Rightarrow> s1 | Some r \<Rightarrow> settle r (Resolved None) s1)"

definition failure :: "inflight \<Rightarrow> js_error \<Rightarrow> ws_requestor \<Rightarrow> ws_requestor" where
  "failure e err s =
     (let s1 = (case reconnectPromise s of None \<Rightarrow> s | Some r \<Rightarrow> settle r (Rejected err) s)
      in settle (promise e) (Rejected err) (clearTimeout (timer e) s1))"

text \<open>The callback of the response timer \<open>t\<close>, when it expires after \<^verbatim>\<open>RESPONSE_TIMEOUT_MS\<close>.\<close>

definition responseTimeout :: "nat \<Rightarrow> ws_requestor \<Rightarrow> ws_requestor" where
  "responseTimeout t s =
     (case timers s t of
        None \<Rightarrow> s
      | Some msgid \<Rightarrow>
          (let s0 = s\<lparr>timers := (timers s)(t := None)\<rparr>;
               s1 = (case mif_get s0 msgid of
                       None \<Rightarrow> s0
                     | Some e \<Rightarrow> failure e (Message (''timeout from far end for msgid '' @ msgid)) s0)
           in s1\<lparr>messagesInFlight := AList.delete msgid (messagesInFlight s1)\<rparr>))"

text \<open>\<^verbatim>\<open>_recvAck(msgid, data)\<close>; the \<^verbatim>\<open>msgid\<close> of a frame is any JSON value, the keys of the table are strings.\<close>

definition recvAck :: "json \<Rightarrow> json option \<Rightarrow> ws_requestor \<Rightarrow> ws_requestor" where
  "recvAck msgid data s =
     (let s0 = s\<lparr>initMsgId := None\<rparr>
      in case msgid of
           JStr m \<Rightarrow>
             (case mif_get s0 m of
                None \<Rightarrow> s0
              | Some obj \<Rightarrow> success obj data (s0\<lparr>messagesInFlight := AList.delete m (messagesInFlight s0)\<rparr>))
         | _ \<Rightarrow> s0)"

text \<open>
  \<^verbatim>\<open>_clearPendingMessages()\<close>. Destructuring \<^verbatim>\<open>{timer}\<close> from an entry that holds
  \<^verbatim>\<open>undefined\<close> throws, which leaves the loop before the table is cleared.
\<close>

fun clearPendingLoop ::
  "(string \<times> inflight option) list \<Rightarrow> ws_requestor \<Rightarrow> ws_requestor \<times> js_error option" where
  "clearPendingLoop [] s = (s, None)"
| "clearPendingLoop ((msgid, None) # es) s = (s, Some TypeError)"
| "clearPendingLoop ((msgid, Some obj) # es) s =
     clearPendingLoop es
       (let s1 = clearTimeout (timer obj) s
        in if initMsgId s1 = None
           then failure obj (Message (''abandoning msgid '' @ msgid @ '' since socket is closed'')) s1
           else s1)"

definition clearPendingMessages :: "ws_requestor \<Rightarrow> ws_requestor \<times> js_error option" where
  "clearPendingMessages s =
     (case clearPendingLoop (messagesInFlight s) s of
        (s1, None) \<Rightarrow> (s1\<lparr>messagesInFlight := []\<rparr>, None)
      | (s1, Some e) \<Rightarrow> (s1, Some e))"

definition stopPingTimer :: "ws_requestor \<Rightarrow> ws_requestor" where
  "stopPingTimer s = s\<lparr>pingTimer := False\<rparr>"

text \<open>\<^verbatim>\<open>close(code)\<close>; \<open>None\<close> is the default code \<^verbatim>\<open>WS_CLOSE_CODES.NormalClosure\<close>. An error of \<^verbatim>\<open>_clearPendingMessages\<close> is caught and logged.\<close>

definition close :: "int option \<Rightarrow> ws_requestor \<Rightarrow> ws_requestor \<times> effect list" where
  "close code s =
     (let s1 = stopPingTimer (s\<lparr>closedGracefully := True\<rparr>)
      in case ws s1 of
           None \<Rightarrow> (fst (clearPendingMessages s1), [])
         | Some sock \<Rightarrow> (fst (clearPendingMessages (s1\<lparr>ws := None\<rparr>)), [WsClose code]))"

subsection \<open>Reconnecting\<close>

definition nextBackoff :: "int \<Rightarrow> int" where
  "nextBackoff b = (if b < 2000 then b * 2 else b + 2000)"

text \<open>\<^verbatim>\<open>_scheduleReconnect\<close>: a timer of \<^verbatim>\<open>backoffMs\<close> is set, then \<^verbatim>\<open>backoffMs\<close> grows.\<close>

definition scheduleReconnect :: "ws_requestor \<Rightarrow> ws_requestor \<times> effect list" where
  "scheduleReconnect s = (s\<lparr>backoffMs := nextBackoff (backoffMs s)\<rparr>, [ScheduleReconnect (backoffMs s)])"

definition num_lt :: "nat \<Rightarrow> int option \<Rightarrow> bool" where
  "num_lt i n = (case n of None \<Rightarrow> False | Some m \<Rightarrow> int i < m)"

text \<open>\<^verbatim>\<open>_onSocketClosed()\<close>, the listener of \<^verbatim>\<open>socket-closed\<close>; the third component is an error it throws.\<close>

definition onSocketClosed :: "ws_requestor \<Rightarrow> ws_requestor \<times> effect list \<times> js_error option" where
  "onSocketClosed s =
     (let s1 = stopPingTimer (s\<lparr>ws := None\<rparr>)
      in if 0 < connections s1 \<and> num_lt (connections s1) (maxReconnects s1) \<and> \<not> closedGracefully s1
         then (case (if initMsgId s1 = None then clearPendingMessages s1 else (s1, None)) of
                 (s2, Some e) \<Rightarrow> (s2, [Emit Connection_dropped], Some e)
               | (s2, None) \<Rightarrow>
                   (case scheduleReconnect s2 of
                      (s3, effs) \<Rightarrow> (s3, Emit Connection_dropped # effs, None)))
         else (s1, [Emit Connection_dropped], None))"

text \<open>\<^verbatim>\<open>_onClose(code)\<close>: the socket was closed from the far end.\<close>

definition onClose :: "int \<Rightarrow> ws_requestor \<Rightarrow> ws_requestor \<times> effect list \<times> js_error option" where
  "onClose code s =
     (let s1 = stopPingTimer s
      in if 0 < connections s1 \<and> code \<noteq> 1000
         then (case onSocketClosed s1 of
                 (s2, effs, Some e) \<Rightarrow> (s2, Emit Socket_closed # effs, Some e)
               | (s2, effs, None) \<Rightarrow> (s2\<lparr>ws := None\<rparr>, Emit Socket_closed # effs, None))
         else if code = 1000 then (s1\<lparr>closedGracefully := True, ws := None\<rparr>, [], None)
         else (s1\<lparr>ws := None\<rparr>, [], None))"

text \<open>
  The callback of the reconnect timer: \<^verbatim>\<open>_connect()\<close> is started unless a socket or a
  connection attempt exists. The attempt ends with \<^verbatim>\<open>_onOpen\<close>, or fails and
  \<open>reconnectFailed\<close> runs (\<^verbatim>\<open>.finally(() => this.connectInProgress = false)\<close>).
\<close>

definition reconnectTimer :: "ws_requestor \<Rightarrow> ws_requestor \<times> effect list" where
  "reconnectTimer s =
     (if ws s = None \<and> \<not> connectInProgress s
      then (stopPingTimer (s\<lparr>connectInProgress := True\<rparr>), [Connect])
      else (s, []))"

definition reconnectFailed :: "ws_requestor \<Rightarrow> ws_requestor" where
  "reconnectFailed s = s\<lparr>connectInProgress := False\<rparr>"

subsection \<open>\<^verbatim>\<open>request\<close>\<close>

text \<open>\<^verbatim>\<open>queueMsg()\<close>: with \<^verbatim>\<open>wantsAck\<close> a new promise is returned and queued with the message.\<close>

definition queueMsg ::
  "string \<Rightarrow> hook \<Rightarrow> params \<Rightarrow> headers \<Rightarrow> ws_requestor \<Rightarrow> result \<times> ws_requestor \<times> effect list" where
  "queueMsg type hook params httpHeaders s =
     (if wantsAck type then
        (let p = nextHandle s
         in (Returned_promise p,
             s\<lparr>queuedMsg := queuedMsg s @
                  [\<lparr>q_type = type, q_hook = hook, q_params = params, q_httpHeaders = httpHeaders,
                    q_promise = Some p\<rparr>],
               promises := (promises s)(p := Pending), nextHandle := p + 1\<rparr>, []))
      else
        (Returned_undefined,
         s\<lparr>queuedMsg := queuedMsg s @
              [\<lparr>q_type = type, q_hook = hook, q_params = params, q_httpHeaders = httpHeaders,
                q_promise = None\<rparr>]\<rparr>, []))"

text \<open>\<^verbatim>\<open>this.call_sid = params.callSid\<close>\<close>

definition setCallSid :: "params \<Rightarrow> ws_requestor \<Rightarrow> ws_requestor" where
  "setCallSid params s =
     s\<lparr>call_sid := (case params of None \<Rightarrow> None | Some p \<Rightarrow> map_of p ''callSid'')\<rparr>"

text \<open>\<^verbatim>\<open>this._reconnectPromise = new Promise(...)\<close>, which also sets the two resolvers.\<close>

definition newReconnectPromise :: "ws_requestor \<Rightarrow> ws_requestor" where
  "newReconnectPromise s =
     s\<lparr>reconnectPromise := Some (nextHandle s), promises := (promises s)(nextHandle s := Pending),
       nextHandle := nextHandle s + 1\<rparr>"

text \<open>
  The first part of \<^verbatim>\<open>request\<close>, up to the handover: \<open>Inl\<close> when the call returns or throws
  there, \<open>Inr\<close> with the state when it goes on. \<^verbatim>\<open>params.callSid\<close> of a \<^verbatim>\<open>session:new\<close> with no
  \<^verbatim>\<open>params\<close> throws a \<^verbatim>\<open>TypeError\<close>. The constructor of \<^verbatim>\<open>./http-requestor\<close> is not among
  the files; the new requestor is recorded by the arguments it is built from.
\<close>

definition request_head ::
  "env \<Rightarrow> string \<Rightarrow> hook \<Rightarrow> params \<Rightarrow> headers \<Rightarrow> ws_requestor \<Rightarrow>
    (result \<times> ws_requestor \<times> effect list) + ws_requestor" where
  "request_head env type hook params httpHeaders s =
     (if type \<notin> set (HookMsgTypes env) then Inl (Thrown AssertionError, s, [])
      else if maliciousClient s then Inl (Returned_undefined, s, [])
      else if closedGracefully s then Inl (Returned_undefined, s, [])
      else if type = ''session:new'' \<and> params = None then Inl (Thrown TypeError, s, [])
      else
        (let s1 = (if type = ''session:new'' then setCallSid params s else s);
             s2 = (if type = ''session:reconnect'' then newReconnectPromise s1 else s1);
             url = hook_url hook
         in if isAbsoluteUrl url \<and> startsWith url ''http'' then
              (let requestor = NewHttpRequestor (ws_account_sid s2) (hook_object hook) (ws_secret s2)
               in if type = ''session:redirect''
                  then (case close None s2 of
                          (s3, effs) \<Rightarrow>
                            Inl (Delegated requestor type hook params httpHeaders, s3,
                                 effs @ [Emit (Handover requestor)]))
                  else Inl (Delegated requestor type hook params httpHeaders, s2, []))
            else Inr s2))"

definition HOOK_TYPES :: "string list" where
  "HOOK_TYPES = [''verb:hook'', ''dial:confirm'', ''session:redirect'', ''llm:event'', ''llm:tool-call'']"

definition b3_of :: "headers \<Rightarrow> string option" where
  "b3_of httpHeaders =
     (case map_of httpHeaders ''b3'' of None \<Rightarrow> None | Some v \<Rightarrow> if v = [] then None else Some v)"

text \<open>The frame \<^verbatim>\<open>obj\<close> built for a message.\<close>

definition frame_of :: "string \<Rightarrow> string \<Rightarrow> hook \<Rightarrow> params \<Rightarrow> headers \<Rightarrow> ws_requestor \<Rightarrow> frame" where
  "frame_of type msgid hook payload httpHeaders s =
     \<lparr>f_type = type, f_msgid = msgid, f_call_sid = call_sid s,
      f_hook = (if type \<in> set HOOK_TYPES then Some (hook_url hook) else None),
      f_data = (case payload of None \<Rightarrow> [] | Some d \<Rightarrow> d),
      f_b3 = b3_of httpHeaders\<rparr>"

text \<open>
  The special case of reconnecting before the ack to \<^verbatim>\<open>session:new\<close>: the entry under
  \<^verbatim>\<open>_initMsgId\<close> is deleted and stored again under the new \<^verbatim>\<open>msgid\<close>, which becomes
  \<^verbatim>\<open>_initMsgId\<close>.
\<close>

definition rekey :: "string \<Rightarrow> ws_requestor \<Rightarrow> ws_requestor" where
  "rekey msgid s =
     (case initMsgId s of
        None \<Rightarrow> s
      | Some old \<Rightarrow>
          s\<lparr>messagesInFlight := AList.update msgid (mif_get s old) (AList.delete old (messagesInFlight s)),
            initMsgId := Some msgid\<rparr>)"

text \<open>
  The executor of the promise of a message that requires an ack: the response timer is
  set and the entry is stored; the result is the promise and the new state.
\<close>

definition register :: "string \<Rightarrow> ws_requestor \<Rightarrow> nat \<times> ws_requestor" where
  "register msgid s =
     (let p = nextHandle s; t = nextHandle s + 1
      in (p, s\<lparr>promises := (promises s)(p := Pending),
                timers := (timers s)(t := Some msgid),
                messagesInFlight :=
                  AList.update msgid (Some \<lparr>timer = t, promise = p\<rparr>) (messagesInFlight s),
                nextHandle := nextHandle s + 2\<rparr>))"

text \<open>
  The end of \<^verbatim>\<open>request\<close>, from \<^verbatim>\<open>const msgid = short.generate()\<close> on, where \<open>msgid\<close> is the
  value generated: the frame is built, the table is re-keyed in the special case, and the
  frame is sent, as a simple notification or with a promise that waits for the ack. The
  callbacks of \<^verbatim>\<open>ws.send\<close>, which flush \<^verbatim>\<open>queuedMsg\<close> once the frame is written, are not part
  of the call.
\<close>

definition send_message ::
  "string \<Rightarrow> hook \<Rightarrow> params \<Rightarrow> headers \<Rightarrow> string \<Rightarrow> ws_requestor \<Rightarrow> result \<times> ws_requestor \<times> effect list" where
  "send_message type hook payload httpHeaders msgid s =
     (let s2 = (if type = ''session:new'' then s\<lparr>initMsgId := Some msgid\<rparr> else s);
          obj = frame_of type msgid hook payload httpHeaders s2;
          reconnectingWithoutAck = (type = ''session:reconnect'' \<and> initMsgId s2 \<noteq> None);
          s3 = (if reconnectingWithoutAck then rekey msgid s2 else s2)
      in if \<not> wantsAck type \<or> reconnectingWithoutAck
         then (Returned_undefined, s3, [WsSend obj])
         else (case register msgid s3 of (p, s4) \<Rightarrow> (Returned_promise p, s4, [WsSend obj])))"

text \<open>
  The part of \<^verbatim>\<open>request\<close> after the connection is there, from the test of
  \<^verbatim>\<open>_reconnectPromise\<close> on: the message is queued while a \<^verbatim>\<open>session:reconnect\<close> waits for its
  ack, otherwise the payload is prepared and the message is sent.
\<close>

definition request_send ::
  "env \<Rightarrow> string \<Rightarrow> hook \<Rightarrow> params \<Rightarrow> headers \<Rightarrow> string \<Rightarrow> ws_requestor \<Rightarrow>
    result \<times> ws_requestor \<times> effect list" where
  "request_send env type hook params httpHeaders msgid s =
     (if type \<noteq> ''session:reconnect'' \<and> reconnectPromise s \<noteq> None
      then queueMsg type hook params httpHeaders s
      else if ws s = None then (Thrown AssertionError, s, [])
      else
        (let payload0 = payload_of env params;
             s1 = (if type = ''session:new'' \<or> type = ''session:adulting''
                   then s\<lparr>sessionData := payload0\<rparr> else s);
             payload = (if type = ''session:reconnect'' then sessionData s1 else payload0)
         in if hook_url hook = [] then (Thrown AssertionError, s1, [])
            else send_message type hook payload httpHeaders msgid s1))"

text \<open>\<^verbatim>\<open>request\<close> when \<^verbatim>\<open>this.ws\<close> is set: the block that connects is skipped.\<close>

definition request_ws ::
  "env \<Rightarrow> string \<Rightarrow> hook \<Rightarrow> params \<Rightarrow> headers \<Rightarrow> string \<Rightarrow> ws_requestor \<Rightarrow>
    result \<times> ws_requestor \<times> effect list" where
  "request_ws env type hook params httpHeaders msgid s =
     (case request_head env type hook params httpHeaders s of
        Inl res \<Rightarrow> res
      | Inr s1 \<Rightarrow> request_send env type hook params httpHeaders msgid s1)"

text \<open>
  \<^verbatim>\<open>_onOpen(ws)\<close>, with the \<^verbatim>\<open>ready\<close> listener that \<^verbatim>\<open>_connect\<close> has registered: from the second
  connection on it calls \<^verbatim>\<open>this.request('session:reconnect', this.url)\<close>, whose promise it
  drops; \<open>msgid\<close> is the id that call generates. The third component is the failed
  \<^verbatim>\<open>assert(!this.ws)\<close>.
\<close>

definition onOpen ::
  "env \<Rightarrow> nat \<Rightarrow> string \<Rightarrow> ws_requestor \<Rightarrow> ws_requestor \<times> effect list \<times> js_error option" where
  "onOpen env sock msgid s =
     (if ws s \<noteq> None then (s, [], Some AssertionError)
      else
        (let s1 = s\<lparr>ws := Some sock, connectInProgress := False, connections := connections s + 1\<rparr>;
             (s2, effs) = (if 1 < connections s1
                           then (case request_ws env ''session:reconnect'' (HookUrl (ws_url s1)) None [] msgid s1 of
                                   (res, s', effs') \<Rightarrow> (s', effs'))
                           else (s1, []));
             s3 = (case JAMBONES_WS_PING_INTERVAL_MS env of
                     None \<Rightarrow> s2
                   | Some ms \<Rightarrow> if 15000 < ms then s2\<lparr>pingTimer := True\<rparr> else s2)
         in (s3, Emit Ready # effs, None)))"

text \<open>
  How one call of \<^verbatim>\<open>_connect()\<close> ends, which the network decides. The socket opens
  (\<open>Opens sock msgid\<close>, \<^verbatim>\<open>_onOpen\<close> runs), or the attempt fails (\<open>Fails f code\<close>): the socket
  emits \<^verbatim>\<open>error\<close> (\<open>Errors e\<close>, \<^verbatim>\<open>_onError\<close> runs) or the upgrade is refused with a status
  code (\<open>Refused status\<close>, \<^verbatim>\<open>_onUnexpectedResponse\<close> runs). \<open>code\<close> is the code of the
  \<^verbatim>\<open>close\<close> event that the failed socket emits right after that, for which \<^verbatim>\<open>_setHandlers\<close>
  has registered \<^verbatim>\<open>_onClose\<close>, or \<open>None\<close> when it emits none; the \<^verbatim>\<open>ws\<close> package closes a
  socket that failed with an error with code 1006.
\<close>

datatype connect_failure = Errors js_error | Refused int

datatype connect_outcome = Opens nat string | Fails connect_failure "int option"

definition errorOf :: "connect_failure \<Rightarrow> js_error" where
  "errorOf f = (case f of Errors e \<Rightarrow> e | Refused status \<Rightarrow> UpgradeError status)"

text \<open>
  \<^verbatim>\<open>_onError(err)\<close>: \<^verbatim>\<open>not-ready\<close> is emitted, which rejects the promise of \<^verbatim>\<open>_connect()\<close>,
  while a connection attempt is in progress or when no socket has ever been opened. The
  first component tells whether it was.
\<close>

definition onError :: "js_error \<Rightarrow> ws_requestor \<Rightarrow> bool \<times> effect list" where
  "onError err s =
     (if connectInProgress s then (True, [Emit (Not_ready err)])
      else if connections s = 0 then (True, [Emit (Not_ready err)])
      else (False, []))"

text \<open>
  \<^verbatim>\<open>_onUnexpectedResponse(ws, req, res)\<close>: after \<^verbatim>\<open>assert(!this.ws)\<close> it emits
  \<^verbatim>\<open>connection-failure\<close>, resets \<^verbatim>\<open>connectInProgress\<close> and emits \<^verbatim>\<open>not-ready\<close> with an
  error that carries the status code.
\<close>

definition onUnexpectedResponse :: "int \<Rightarrow> ws_requestor \<Rightarrow> bool \<times> ws_requestor \<times> effect list" where
  "onUnexpectedResponse status s =
     (if ws s \<noteq> None then (False, s, [])
      else (True, s\<lparr>connectInProgress := False\<rparr>,
            [Emit Connection_failure, Emit (Not_ready (UpgradeError status))]))"

text \<open>
  The events of a failed attempt, in the order the socket emits them: the failure, then
  the \<^verbatim>\<open>close\<close>, both before the code that awaits \<^verbatim>\<open>_connect()\<close> goes on. The first
  component tells whether the promise of \<^verbatim>\<open>_connect()\<close> was rejected.
\<close>

definition failedAttempt ::
  "connect_failure \<Rightarrow> int option \<Rightarrow> ws_requestor \<Rightarrow> bool \<times> ws_requestor \<times> effect list" where
  "failedAttempt f code s =
     (case (case f of
              Errors e \<Rightarrow> (case onError e s of (rejected, effs) \<Rightarrow> (rejected, s, effs))
            | Refused status \<Rightarrow> onUnexpectedResponse status s) of
        (rejected, s1, effs) \<Rightarrow>
          (case code of
             None \<Rightarrow> (rejected, s1, effs)
           | Some c \<Rightarrow> (case onClose c s1 of (s2, effs2, _) \<Rightarrow> (rejected, s2, effs @ effs2))))"

text \<open>
  How the loop of \<^verbatim>\<open>request\<close> that connects ends: it is left with no error (\<open>Goes_on\<close>), it
  throws the last error (\<open>Throws e\<close>), or it stays at \<^verbatim>\<open>await this._connect()\<close> because
  nothing settles the promise of the attempt (\<open>Waits\<close>).
\<close>

datatype connect_end = Goes_on | Throws js_error | Waits

text \<open>
  The loop of \<^verbatim>\<open>request\<close> that connects: \<^verbatim>\<open>while (retryCount <= this.maxReconnects)\<close>. The
  pass with \<^verbatim>\<open>retryCount = i\<close> makes the \<open>i\<close>-th attempt, with outcome \<open>attempt i\<close>. The
  result is how the loop ends, the state, and the attempts, events and sleeps made.
\<close>

function connectLoop ::
  "env \<Rightarrow> (nat \<Rightarrow> connect_outcome) \<Rightarrow> nat \<Rightarrow> ws_requestor \<Rightarrow> effect list \<Rightarrow>
    connect_end \<times> ws_requestor \<times> effect list" where
  "connectLoop env attempt retryCount s tr =
     (if num_le retryCount (maxReconnects s) then
        (let s0 = stopPingTimer (s\<lparr>ws := None\<rparr>)
         in case attempt retryCount of
              Opens sock msgid \<Rightarrow>
                (case onOpen env sock msgid s0 of (s1, effs, _) \<Rightarrow> (Goes_on, s1, tr @ Connect # effs))
            | Fails f code \<Rightarrow>
                (case failedAttempt f code s0 of
                   (rejected, s1, effs) \<Rightarrow>
                     if \<not> rejected then (Waits, s1, tr @ Connect # effs)
                     else if num_le (retryCount + 1) (maxReconnects s1) \<and> retryPolicyValues s1 \<noteq> [] \<and>
                             shouldRetry env (errorOf f) (retryPolicyValues s1)
                     then connectLoop env attempt (retryCount + 1)
                            (s1\<lparr>backoffMs := nextBackoff (backoffMs s1)\<rparr>)
                            (tr @ Connect # effs @ [Sleep (backoffMs s1)])
                     else (Throws (errorOf f), s1, tr @ Connect # effs)))
      else (Goes_on, s, tr))"
  by pat_completeness auto
termination
proof -
  have loop: "maxReconnects (fst (clearPendingLoop es s)) = maxReconnects s" for es s
    by (induction es s rule: clearPendingLoop.induct)
       (simp_all add: Let_def clearTimeout_def failure_def settle_def split: option.splits)
  have clear: "maxReconnects (fst (clearPendingMessages s)) = maxReconnects s" for s
    using loop [of "messagesInFlight s" s]
    by (auto simp: clearPendingMessages_def split: prod.splits option.splits)
  have dropped: "maxReconnects (fst (onSocketClosed s)) = maxReconnects s" for s
    using clear [of "stopPingTimer (s\<lparr>ws := None\<rparr>)"]
    by (auto simp: onSocketClosed_def Let_def scheduleReconnect_def stopPingTimer_def
        split: prod.splits option.splits)
  have closed: "maxReconnects (fst (onClose c s)) = maxReconnects s" for c s
    using dropped [of "stopPingTimer s"]
    by (auto simp: onClose_def Let_def stopPingTimer_def split: prod.splits option.splits)
  have failed: "maxReconnects (fst (snd (failedAttempt f code s))) = maxReconnects s" for f code s
    using closed [of _ s] closed [of _ "s\<lparr>connectInProgress := False\<rparr>"]
    by (simp add: failedAttempt_def onError_def onUnexpectedResponse_def case_prod_beta
        split: connect_failure.splits option.splits)
  have failed': "maxReconnects s1 = maxReconnects s"
    if "(rejected, rest) = failedAttempt f code s" and "(s1, effs) = rest"
    for f code s rejected rest s1 effs
  proof -
    from that have "s1 = fst (snd (failedAttempt f code s))"
      by (cases "failedAttempt f code s") auto
    with failed [of f code s] show ?thesis by simp
  qed
  show ?thesis
  proof (relation "measure (\<lambda>(env, attempt, retryCount, s, tr).
        case maxReconnects s of None \<Rightarrow> 0 | Some m \<Rightarrow> nat (m + 1 - int retryCount))", goal_cases)
    case 1
    then show ?case by simp
  next
    case prems: 2
    from failed' [OF prems(4) prems(5)] prems(1) prems(2) prems(7) show ?case
      by (simp add: num_le_def stopPingTimer_def split: option.splits)
  qed
qed

declare connectLoop.simps [simp del]

text \<open>
  \<^verbatim>\<open>WsRequestor.request(type, hook, params, httpHeaders, span)\<close>. The connection attempts of
  the call run one after the other; between them nothing happens to the requestor but
  the events of the sockets that failed.
\<close>

definition request ::
  "env \<Rightarrow> string \<Rightarrow> hook \<Rightarrow> params \<Rightarrow> headers \<Rightarrow> string \<Rightarrow> (nat \<Rightarrow> connect_outcome) \<Rightarrow> ws_requestor \<Rightarrow>
    result \<times> ws_requestor \<times> effect list" where
  "request env type hook params httpHeaders msgid attempt s =
     (case request_head env type hook params httpHeaders s of
        Inl res \<Rightarrow> res
      | Inr s1 \<Rightarrow>
          if ws s1 = None then
            (if connectInProgress s1 then queueMsg type hook params httpHeaders s1
             else (case connectLoop env attempt 0 (s1\<lparr>connectInProgress := True\<rparr>) [] of
                     (Throws err, s2, tr) \<Rightarrow> (Thrown err, s2\<lparr>connectInProgress := False\<rparr>, tr)
                   | (Waits, s2, tr) \<Rightarrow> (Unsettled, s2, tr)
                   | (Goes_on, s2, tr) \<Rightarrow>
                       (case request_send env type hook params httpHeaders msgid s2 of
                          (res, s3, effs) \<Rightarrow> (res, s3, tr @ effs))))
          else request_send env type hook params httpHeaders msgid s1)"

subsection \<open>Inbound frames\<close>

text \<open>
  The body of the \<^verbatim>\<open>try\<close> of \<^verbatim>\<open>_onMessage\<close>, applied to what \<^verbatim>\<open>JSON.parse(content)\<close> yields
  (\<open>None\<close> when it throws): \<open>None\<close> when the body throws, the new state and the events
  emitted otherwise. Only an object has a \<^verbatim>\<open>type\<close> property, and only the strings
  \<^verbatim>\<open>ack\<close> and \<^verbatim>\<open>command\<close> pass the \<^verbatim>\<open>switch\<close>.
\<close>

definition tryMessage :: "json option \<Rightarrow> ws_requestor \<Rightarrow> (ws_requestor \<times> effect list) option" where
  "tryMessage parsed s =
     (case parsed of
        Some (JObj obj) \<Rightarrow>
          (let msgid = map_of obj ''msgid'';
               command = map_of obj ''command'';
               queueCommand = (case map_of obj ''queueCommand'' of None \<Rightarrow> JBool False | Some v \<Rightarrow> v);
               tool_call_id = map_of obj ''tool_call_id'';
               data = map_of obj ''data'';
               sid = (case map_of obj ''callSid'' of
                        None \<Rightarrow> call_sid s
                      | Some v \<Rightarrow> if js_truthy v then Some v else call_sid s)
           in case map_of obj ''type'' of
                Some (JStr type) \<Rightarrow>
                  if type = ''ack'' then
                    (case msgid of
                       None \<Rightarrow> None
                     | Some m \<Rightarrow> if js_truthy m then Some (recvAck m data s, []) else None)
                  else if type = ''command'' then
                    (case command of
                       None \<Rightarrow> None
                     | Some c \<Rightarrow>
                         if js_truthy c \<and>
                            ((case data of None \<Rightarrow> False | Some d \<Rightarrow> js_truthy d) \<or>
                             (case c of JStr cs \<Rightarrow> cs \<in> set MTYPE_NO_DATA | _ \<Rightarrow> False))
                         then Some (s, [Emit (Command msgid c sid queueCommand tool_call_id data)])
                         else None)
                  else None
              | _ \<Rightarrow> None)
      | _ \<Rightarrow> None)"

text \<open>
  \<^verbatim>\<open>_onMessage(content, isBinary)\<close>. The guard reads the property \<^verbatim>\<open>this.isBinary\<close>, not the
  parameter. In the \<^verbatim>\<open>catch\<close> an alert is written and a \<^verbatim>\<open>jambonz:error\<close> is sent with
  \<^verbatim>\<open>this.request\<close>; \<open>details\<close> is the message of the error caught; \<open>msgid\<close> and \<open>attempt\<close>
  belong to that nested call.
\<close>

definition onMessage ::
  "env \<Rightarrow> string \<Rightarrow> json option \<Rightarrow> bool \<Rightarrow> string \<Rightarrow> string \<Rightarrow> (nat \<Rightarrow> connect_outcome) \<Rightarrow> ws_requestor \<Rightarrow>
    ws_requestor \<times> effect list \<times> js_error option" where
  "onMessage env content parsed isBinaryFlag details msgid attempt s =
     (if isBinary s then
        (case ws s of
           None \<Rightarrow> (s\<lparr>maliciousClient := True\<rparr>, [], Some TypeError)
         | Some sock \<Rightarrow> (s\<lparr>maliciousClient := True\<rparr>, [WsClose None], None))
      else
        (case tryMessage parsed s of
           Some (s1, effs) \<Rightarrow> (s1, effs, None)
         | None \<Rightarrow>
             (let params = Some [(''msg'', JStr ''InvalidMessage''), (''details'', JStr details),
                                 (''content'', JStr content)]
              in case request env ''jambonz:error'' (HookUrl ''/error'') params [] msgid attempt s of
                   (res, s1, effs) \<Rightarrow> (s1, WriteAlert # effs, None))))"

subsection \<open>Runs of a requestor\<close>

text \<open>
  Everything that happens to a requestor: calls of \<^verbatim>\<open>request\<close> and \<^verbatim>\<open>close\<close> by its owner,
  the events of its socket, and its timers.
\<close>

datatype ws_call =
    Request string hook params headers string "nat \<Rightarrow> connect_outcome"
  | Close "int option"
  | OnClose int
  | OnMessage string "json option" bool string string "nat \<Rightarrow> connect_outcome"
  | OnOpen nat string
  | ResponseTimeout nat
  | ReconnectTimer
  | ReconnectFailed

fun ws_step :: "env \<Rightarrow> ws_call \<Rightarrow> ws_requestor \<Rightarrow> ws_requestor \<times> effect list" where
  "ws_step env (Request type hook params httpHeaders msgid attempt) s =
     (case request env type hook params httpHeaders msgid attempt s of (res, s1, effs) \<Rightarrow> (s1, effs))"
| "ws_step env (Close code) s = close code s"
| "ws_step env (OnClose code) s = (case onClose code s of (s1, effs, _) \<Rightarrow> (s1, effs))"
| "ws_step env (OnMessage content parsed isBinaryFlag details msgid attempt) s =
     (case onMessage env content parsed isBinaryFlag details msgid attempt s of (s1, effs, _) \<Rightarrow> (s1, effs))"
| "ws_step env (OnOpen sock msgid) s = (case onOpen env sock msgid s of (s1, effs, _) \<Rightarrow> (s1, effs))"
| "ws_step env (ResponseTimeout t) s = (responseTimeout t s, [])"
| "ws_step env ReconnectTimer s = reconnectTimer s"
| "ws_step env ReconnectFailed s = (reconnectFailed s, [])"

fun ws_run :: "env \<Rightarrow> ws_call list \<Rightarrow> ws_requestor \<Rightarrow> ws_requestor \<times> effect list" where
  "ws_run env [] s = (s, [])"
| "ws_run env (c # cs) s =
     (case ws_step env c s of
        (s1, effs1) \<Rightarrow> (case ws_run env cs s1 of (s2, effs2) \<Rightarrow> (s2, effs1 @ effs2)))"


section \<open>The HTTP requestor (\<^verbatim>\<open>lib/utils/http-requestor-optimized.js\<close>)\<close>

text \<open>
  \<^verbatim>\<open>hr_poolManager\<close> tells whether \<^verbatim>\<open>this.poolManager\<close> was assigned; it is
  \<^verbatim>\<open>undefined\<close> otherwise. The request statistics (counters and response times) are
  telemetry and are left out.
\<close>

record http_requestor =
  hr_url :: string
  hr_baseUrl :: string
  hr_account_sid :: string
  hr_secret :: string
  hr_method :: string
  hr_backoffMs :: int
  hr_maxRetries :: int
  hr_retryDelay :: int
  hr_usePools :: bool
  hr_poolManager :: bool

text \<open>The truthiness of \<^verbatim>\<open>HTTP_POOL && parseInt(HTTP_POOL)\<close>.\<close>

definition usePools_of :: "envval \<Rightarrow> bool" where
  "usePools_of v =
     (case v of
        Unset \<Rightarrow> False
      | EnvStr s \<Rightarrow> s \<noteq> [] \<and> (case parseInt s of None \<Rightarrow> False | Some n \<Rightarrow> n \<noteq> 0)
      | EnvNum n \<Rightarrow> n \<noteq> 0)"

text \<open>
  The constructor. \<^verbatim>\<open>this.url\<close> and \<^verbatim>\<open>this.baseUrl\<close> are set by \<^verbatim>\<open>BaseRequestor\<close> from the
  hook; the base URL is an argument here.
\<close>

definition OptimizedHttpRequestor ::
  "env \<Rightarrow> string \<Rightarrow> hook_obj \<Rightarrow> string \<Rightarrow> string \<Rightarrow> js_error + http_requestor" where
  "OptimizedHttpRequestor env account_sid hook secret baseUrl =
     (let method = (case h_method hook of None \<Rightarrow> ''POST'' | Some m \<Rightarrow> if m = [] then ''POST'' else m)
      in if \<not> isAbsoluteUrl (h_url hook) then Inl AssertionError
         else if method \<notin> set [''GET'', ''POST''] then Inl AssertionError
         else (case parseUrl env (h_url hook) of
                 Inl e \<Rightarrow> Inl e
               | Inr u \<Rightarrow>
                   Inr \<lparr>hr_url = h_url hook, hr_baseUrl = baseUrl, hr_account_sid = account_sid,
                        hr_secret = secret, hr_method = method, hr_backoffMs = 500,
                        hr_maxRetries = 3, hr_retryDelay = 1000,
                        hr_usePools = usePools_of (HTTP_POOL env),
                        hr_poolManager = usePools_of (HTTP_POOL env)\<rparr>))"

datatype client = PoolFor string | ClientFor string

record client_config =
  cc_client :: client
  cc_path :: string
  cc_query :: "(string \<times> string) list"
  cc_absUrl :: string

definition originOf :: "parsed_url \<Rightarrow> string" where
  "originOf u = p_protocol u @ ''://'' @ p_resource u @ (if p_port u \<noteq> [] then '':'' @ p_port u else [])"

text \<open>
  \<^verbatim>\<open>getClientConfig(url)\<close>. Reading \<^verbatim>\<open>this.poolManager.getPool\<close> or
  \<^verbatim>\<open>this.poolManager.getClient\<close> while \<^verbatim>\<open>this.poolManager\<close> is \<^verbatim>\<open>undefined\<close> throws a
  \<^verbatim>\<open>TypeError\<close>.
\<close>

definition getClientConfig :: "env \<Rightarrow> http_requestor \<Rightarrow> string \<Rightarrow> js_error + client_config" where
  "getClientConfig env r url =
     (let absUrl = (if isRelativeUrl url then hr_baseUrl r @ url else url)
      in case parseUrl env absUrl of
           Inl e \<Rightarrow> Inl e
         | Inr parsedUrl \<Rightarrow>
             if hr_usePools r then
               (if isRelativeUrl url then
                  (if hr_poolManager r
                   then Inr \<lparr>cc_client = PoolFor (hr_baseUrl r), cc_path = url, cc_query = [],
                             cc_absUrl = absUrl\<rparr>
                   else Inl TypeError)
                else
                  (if hr_poolManager r
                   then Inr \<lparr>cc_client = PoolFor (originOf parsedUrl), cc_path = p_pathname parsedUrl,
                             cc_query = p_query parsedUrl, cc_absUrl = absUrl\<rparr>
                   else Inl TypeError))
             else
               (if hr_poolManager r
                then Inr \<lparr>cc_client = ClientFor (originOf parsedUrl), cc_path = p_pathname parsedUrl,
                          cc_query = p_query parsedUrl, cc_absUrl = absUrl\<rparr>
                else Inl TypeError))"

text \<open>
  The request handed to \<^verbatim>\<open>undici\<close>: through the global \<^verbatim>\<open>request(absUrl, options)\<close> when a
  proxy is configured, through \<^verbatim>\<open>client.request(options)\<close> otherwise. What comes back is
  decided by the network: a transport error, or a response with its status code, its
  \<^verbatim>\<open>content-type\<close> header and what \<^verbatim>\<open>body.json()\<close> yields for its body.
\<close>

datatype target = GlobalRequest string | ClientRequest client

record http_call =
  hc_target :: target
  hc_path :: string
  hc_query :: "(string \<times> string) list"
  hc_method :: string
  hc_body :: "params option"

record response =
  statusCode :: int
  contentType :: "string option"
  bodyJson :: "js_error + json"

definition makeRequest ::
  "env \<Rightarrow> http_requestor \<Rightarrow> string \<Rightarrow> string \<Rightarrow> params \<Rightarrow> (http_call \<Rightarrow> js_error + response) \<Rightarrow>
    js_error + json" where
  "makeRequest env r url method payload transport =
     (case getClientConfig env r url of
        Inl e \<Rightarrow> Inl e
      | Inr cfg \<Rightarrow>
          (let requestOptions =
                 \<lparr>hc_target = (if HTTP_PROXY_IP env \<noteq> None \<and> HTTP_PROXY_IP env \<noteq> Some []
                                then GlobalRequest (cc_absUrl cfg) else ClientRequest (cc_client cfg)),
                  hc_path = cc_path cfg, hc_query = cc_query cfg, hc_method = method,
                  hc_body = (if method = ''POST'' then Some payload else None)\<rparr>
           in case transport requestOptions of
                Inl e \<Rightarrow> Inl e
              | Inr response \<Rightarrow>
                  if statusCode response \<notin> set [200, 202, 204]
                  then Inl (HTTPResponseError (statusCode response))
                  else if (case contentType response of
                             None \<Rightarrow> False
                           | Some ct \<Rightarrow> js_includes ct ''application/json'')
                  then bodyJson response
                  else Inr (JStr [])))"

text \<open>
  The retry loop of \<^verbatim>\<open>request\<close>: \<^verbatim>\<open>while (retryCount <= maxRetries)\<close>. Every pass makes one
  request, so the pass with \<^verbatim>\<open>retryCount = i\<close> is the \<open>i\<close>-th call of \<^verbatim>\<open>makeRequest\<close>, whose
  outcome the network decides (\<open>transport i\<close>). The loop yields \<^verbatim>\<open>response\<close> (\<open>None\<close> for
  \<^verbatim>\<open>null\<close>), \<^verbatim>\<open>lastError\<close> and the requests and sleeps it made.
\<close>

function retryLoop ::
  "env \<Rightarrow> http_requestor \<Rightarrow> string \<Rightarrow> string \<Rightarrow> params \<Rightarrow> (nat \<Rightarrow> http_call \<Rightarrow> js_error + response) \<Rightarrow>
    string list \<Rightarrow> int \<Rightarrow> nat \<Rightarrow> js_error option \<Rightarrow> effect list \<Rightarrow>
    json option \<times> js_error option \<times> effect list" where
  "retryLoop env r url method payload transport policyValues maxRetries retryCount lastError tr =
     (if int retryCount \<le> maxRetries then
        (case makeRequest env r url method payload (transport retryCount) of
           Inr response \<Rightarrow> (Some response, lastError, tr @ [MakeRequest])
         | Inl error \<Rightarrow>
             if int (retryCount + 1) \<le> maxRetries \<and> shouldRetry env error policyValues
             then retryLoop env r url method payload transport policyValues maxRetries
                    (retryCount + 1) (Some error)
                    (tr @ [MakeRequest, Sleep (hr_backoffMs r * 2 ^ (retryCount + 1 - 1))])
             else (None, Some error, tr @ [MakeRequest]))
      else (None, lastError, tr))"
  by pat_completeness auto
termination
  by (relation "measure (\<lambda>(env, r, url, method, payload, transport, pol, maxRetries, retryCount, lastError, tr).
        nat (maxRetries + 1 - int retryCount))") auto

declare retryLoop.simps [simp del]

text \<open>\<^verbatim>\<open>!response\<close>\<close>

definition falsy :: "json option \<Rightarrow> bool" where
  "falsy v = (case v of None \<Rightarrow> True | Some j \<Rightarrow> \<not> js_truthy j)"

definition rc_of :: "(string \<times> string) list \<Rightarrow> string option" where
  "rc_of hashObj = map_of hashObj ''rc''"

definition rp_of :: "(string \<times> string) list \<Rightarrow> string option" where
  "rp_of hashObj = map_of hashObj ''rp''"

text \<open>\<^verbatim>\<open>Math.min(Math.abs(parseInt(hashObj.rc || '0')), 5)\<close>\<close>

definition http_maxRetries :: "string option \<Rightarrow> int option" where
  "http_maxRetries rc =
     Math_min (Math_abs (parseInt (case rc of None \<Rightarrow> ''0'' | Some v \<Rightarrow> if v = [] then ''0'' else v))) 5"

definition addUserAgent :: "env \<Rightarrow> headers \<Rightarrow> headers" where
  "addUserAgent env httpHeaders =
     (case HTTP_USER_AGENT_HEADER env of
        None \<Rightarrow> httpHeaders
      | Some ua \<Rightarrow> if ua = [] then httpHeaders else AList.update ''user-agent'' ua httpHeaders)"

text \<open>
  The part of \<^verbatim>\<open>request\<close> after the URL is parsed: the retry configuration is read from
  the fragment, the loop runs, and the outcome is returned or thrown. With a \<^verbatim>\<open>NaN\<close>
  retry count the loop condition is false from the start, no request is made and
  \<^verbatim>\<open>null\<close> is returned. A response that is falsy (the \<^verbatim>\<open>''\<close> of a body that is not JSON, for
  one) after an earlier failure is thrown away with \<^verbatim>\<open>lastError\<close>.
\<close>

definition request_retrying ::
  "env \<Rightarrow> http_requestor \<Rightarrow> string \<Rightarrow> string \<Rightarrow> params \<Rightarrow> (nat \<Rightarrow> http_call \<Rightarrow> js_error + response) \<Rightarrow>
    parsed_url \<Rightarrow> result \<times> effect list" where
  "request_retrying env r url method payload transport parsedUrl =
     (let hash = p_hash parsedUrl;
          hashObj = (if hash \<noteq> [] then parseHashParams env hash else []);
          retryPolicyValues = retryPolicyValues_of (rp_of hashObj)
      in case http_maxRetries (rc_of hashObj) of
           None \<Rightarrow> (Returned None, [])
         | Some maxRetries \<Rightarrow>
             (case retryLoop env r url method payload transport retryPolicyValues maxRetries 0 None [] of
                (response, lastError, tr) \<Rightarrow>
                  (case lastError of
                     None \<Rightarrow> (Returned response, tr)
                   | Some e \<Rightarrow>
                       if falsy response then (Thrown e, tr @ [WriteAlert])
                       else (Returned response, tr))))"

definition method_of :: "hook \<Rightarrow> string" where
  "method_of hook =
     (case hook of
        HookUrl _ \<Rightarrow> ''POST''
      | HookObj h \<Rightarrow> (case h_method h of None \<Rightarrow> ''POST'' | Some m \<Rightarrow> if m = [] then ''POST'' else m))"

text \<open>\<^verbatim>\<open>OptimizedHttpRequestor.request(type, hook, params, httpHeaders, span)\<close>\<close>

definition http_request ::
  "env \<Rightarrow> http_requestor \<Rightarrow> string \<Rightarrow> hook \<Rightarrow> params \<Rightarrow> headers \<Rightarrow>
    (nat \<Rightarrow> http_call \<Rightarrow> js_error + response) \<Rightarrow> result \<times> effect list" where
  "http_request env r type hook params httpHeaders0 transport =
     (if type = ''jambonz:error'' then (Returned_undefined, [])
      else if type \<notin> set (HookMsgTypes env) then (Thrown AssertionError, [])
      else
        (let payload = payload_of env params;
             url = hook_url hook;
             method = method_of hook;
             httpHeaders = addUserAgent env httpHeaders0
         in if url = [] then (Thrown AssertionError, [])
            else if method \<notin> set [''GET'', ''POST''] then (Thrown AssertionError, [])
            else if isAbsoluteUrl url \<and> startsWith url ''ws'' then
              (case WsRequestor env (hr_account_sid r) (hook_object hook) (hr_secret r) of
                 Inl e \<Rightarrow> (Thrown e, [])
               | Inr _ \<Rightarrow>
                   (let requestor = NewWsRequestor (hr_account_sid r) (hook_object hook) (hr_secret r)
                    in (Delegated requestor ''session:new'' hook params httpHeaders,
                        if type = ''session:redirect'' then [HttpClose, Emit (Handover requestor)]
                        else [])))
            else
              (case parseUrl env (if isRelativeUrl url then hr_baseUrl r @ url else url) of
                 Inl e \<Rightarrow> (Thrown e, [])
               | Inr parsedUrl \<Rightarrow> request_retrying env r url method payload transport parsedUrl)))"

section \<open>Reading a trace\<close>

text \<open>The delays slept, in order, among the effects of a call.\<close>

fun sleeps :: "effect list \<Rightarrow> int list" where
  "sleeps [] = []"
| "sleeps (Sleep d # es) = d # sleeps es"
| "sleeps (e # es) = sleeps es"

section \<open>A concrete environment and concrete requestors\<close>

text \<open>
  An environment to run the requestors in: \<^verbatim>\<open>parse-url\<close> splits off the fragment after
  \<^verbatim>\<open>#\<close>, the fragment is a list of \<^verbatim>\<open>key=value\<close> pairs joined by \<^verbatim>\<open>&\<close>, and an error is
  retried when a policy token matches its class (\<^verbatim>\<open>ct\<close> a transport error, \<^verbatim>\<open>4xx\<close> and \<^verbatim>\<open>5xx\<close> a
  status, \<^verbatim>\<open>all\<close> everything), as the spec describes the retry policy.
\<close>

definition hashOf :: "string \<Rightarrow> string" where
  "hashOf u = drop 1 (dropWhile (\<lambda>c. c \<noteq> CHR ''#'') u)"

definition example_parseUrl :: "string \<Rightarrow> js_error + parsed_url" where
  "example_parseUrl u =
     Inr \<lparr>p_protocol = takeWhile (\<lambda>c. c \<noteq> CHR '':'') u, p_resource = ''app.example'', p_port = [],
          p_pathname = ''/a'', p_query = [], p_hash = hashOf u\<rparr>"

definition example_parseHashParams :: "string \<Rightarrow> (string \<times> string) list" where
  "example_parseHashParams h =
     map (\<lambda>kv. (takeWhile (\<lambda>c. c \<noteq> CHR ''='') kv, drop 1 (dropWhile (\<lambda>c. c \<noteq> CHR ''='') kv)))
       (split_on (CHR ''&'') [] h)"

definition example_shouldRetry :: "js_error \<Rightarrow> string list \<Rightarrow> bool" where
  "example_shouldRetry e tokens =
     (''all'' \<in> set tokens \<or>
      (case e of
         TransportError _ \<Rightarrow> ''ct'' \<in> set tokens
       | UpgradeError c \<Rightarrow> ''ct'' \<in> set tokens
       | HTTPResponseError c \<Rightarrow>
           (400 \<le> c \<and> c < 500 \<and> ''4xx'' \<in> set tokens) \<or> (500 \<le> c \<and> c < 600 \<and> ''5xx'' \<in> set tokens)
       | _ \<Rightarrow> False))"

definition example_env :: env where
  "example_env =
     \<lparr>HookMsgTypes = [''session:new'', ''session:reconnect'', ''session:redirect'', ''call:status'',
                      ''verb:hook'', ''verb:status'', ''jambonz:error''],
      HTTP_POOL = EnvStr ''1'', HTTP_PROXY_IP = None, HTTP_USER_AGENT_HEADER = None,
      MAX_RECONNECTS = Some 5, JAMBONES_WS_PING_INTERVAL_MS = None,
      shouldRetry = example_shouldRetry, parseHashParams = example_parseHashParams,
      parseUrl = example_parseUrl, snakeCase = id\<rparr>"

definition example_hook :: hook_obj where
  "example_hook =
     \<lparr>h_url = ''https://app.example/a'', h_method = None, h_username = None, h_password = None\<rparr>"

text \<open>The HTTP requestor that the constructor builds for \<open>example_hook\<close> in \<open>example_env\<close>.\<close>

definition example_http :: http_requestor where
  "example_http =
     \<lparr>hr_url = ''https://app.example/a'', hr_baseUrl = ''https://app.example'',
      hr_account_sid = ''acct'', hr_secret = ''secret'', hr_method = ''POST'', hr_backoffMs = 500,
      hr_maxRetries = 3, hr_retryDelay = 1000, hr_usePools = True, hr_poolManager = True\<rparr>"

text \<open>The same with \<^verbatim>\<open>HTTP_POOL\<close> unset.\<close>

definition nopool_env :: env where
  "nopool_env = example_env\<lparr>HTTP_POOL := Unset\<rparr>"

definition nopool_http :: http_requestor where
  "nopool_http = example_http\<lparr>hr_usePools := False, hr_poolManager := False\<rparr>"

text \<open>WebSocket requestors as the constructor builds them, without and with a retry count in the fragment.\<close>

definition ws_hook :: hook_obj where
  "ws_hook = \<lparr>h_url = ''wss://app.example/ws'', h_method = None, h_username = None, h_password = None\<rparr>"

definition example_ws :: ws_requestor where
  "example_ws =
     \<lparr>ws_url = ''wss://app.example/ws'', ws_account_sid = ''acct'', ws_secret = ''secret'', ws = None,
      connections = 0, messagesInFlight = [], maliciousClient = False,
      closedGracefully = False, backoffMs = 500, connectInProgress = False,
      queuedMsg = [], maxReconnects = Some 5, retryPolicyValues = [''ct''],
      isBinary = False, call_sid = None, sessionData = None,
      initMsgId = None, reconnectPromise = None, pingTimer = False,
      promises = (\<lambda>_. Pending), timers = (\<lambda>_. None), nextHandle = 0\<rparr>"

definition ws_hook_rc3 :: hook_obj where
  "ws_hook_rc3 =
     \<lparr>h_url = ''wss://app.example/ws#rc=3'', h_method = None, h_username = None, h_password = None\<rparr>"

definition example_ws_rc3 :: ws_requestor where
  "example_ws_rc3 = example_ws\<lparr>ws_url := ''wss://app.example/ws#rc=3'', maxReconnects := Some 3\<rparr>"

text \<open>
  A network on which every connection attempt fails with an error, after which the socket
  closes with code 1006, and one on which every request gets status 500.
\<close>

definition never_connects :: "nat \<Rightarrow> connect_outcome" where
  "never_connects i = Fails (Errors (TransportError ''ECONNREFUSED'')) (Some 1006)"

definition always_500 :: "nat \<Rightarrow> http_call \<Rightarrow> js_error + response" where
  "always_500 i c = Inr \<lparr>statusCode = 500, contentType = None, bodyJson = Inl SyntaxError\<rparr>"

text \<open>The requestor \<open>example_ws\<close> once its first socket is open.\<close>

definition open_ws :: ws_requestor where
  "open_ws = example_ws\<lparr>ws := Some 1, connections := 1\<rparr>"

text \<open>
  Frames from the far end: the text \<^verbatim>\<open>{"type":"ack","msgid":"A","data":[]}\<close> and the value
  \<^verbatim>\<open>JSON.parse\<close> reads from it, and the same for the id \<^verbatim>\<open>B\<close>.
\<close>

definition ack_text :: "string \<Rightarrow> string" where
  "ack_text msgid =
     (let q = [CHR 0x22]
      in ''{'' @ q @ ''type'' @ q @ '':'' @ q @ ''ack'' @ q @ '','' @ q @ ''msgid'' @ q @ '':'' @ q @ msgid @ q @
         '','' @ q @ ''data'' @ q @ '':[]}'')"

definition ack_A :: json where
  "ack_A = JObj [(''type'', JStr ''ack''), (''msgid'', JStr ''A''), (''data'', JArr [])]"

definition ack_B :: json where
  "ack_B = JObj [(''type'', JStr ''ack''), (''msgid'', JStr ''B''), (''data'', JArr [])]"

definition session_params :: params where
  "session_params = Some [(''callSid'', JStr ''call-1''), (''callStatus'', JStr ''trying'')]"



text \<open>
  A \<^verbatim>\<open>session:new\<close> with id \<^verbatim>\<open>A\<close> is sent, the socket drops with code 1011 before the ack, the
  reconnect timer fires and the new socket opens, which sends \<^verbatim>\<open>session:reconnect\<close> with id
  \<^verbatim>\<open>B\<close>. Then the far end acks: the original id in the first run, the new id in the second.
\<close>

definition drop_and_reconnect :: "ws_call list" where
  "drop_and_reconnect =
     [Request ''session:new'' (HookUrl ''wss://app.example/ws'') session_params [] ''A'' never_connects,
      OnClose 1011, ReconnectTimer, OnOpen 2 ''B'']"

definition reconnect_then_ack_A :: "ws_call list" where
  "reconnect_then_ack_A = drop_and_reconnect @ [OnMessage (ack_text ''A'') (Some ack_A) False [] ''C'' never_connects]"

definition reconnect_then_ack_B :: "ws_call list" where
  "reconnect_then_ack_B = drop_and_reconnect @ [OnMessage (ack_text ''B'') (Some ack_B) False [] ''C'' never_connects]"

text \<open>
  The requestor in \<^verbatim>\<open>_onOpen\<close> of the second socket, when the \<^verbatim>\<open>ready\<close> listener is about to
  call \<^verbatim>\<open>request('session:reconnect', this.url)\<close>: a \<^verbatim>\<open>session:new\<close> with id \<^verbatim>\<open>A\<close> was sent, the
  socket dropped with code 1011, the reconnect timer fired and the new socket is open.
\<close>

definition reopened_ws :: ws_requestor where
  "reopened_ws =
     (fst (ws_run example_env
        [Request ''session:new'' (HookUrl ''wss://app.example/ws'') session_params [] ''A'' never_connects,
         OnClose 1011, ReconnectTimer] open_ws))
     \<lparr>ws := Some 2, connectInProgress := False, connections := 2\<rparr>"

text \<open>A \<^verbatim>\<open>params\<close> object with an excluded field, and a snake-casing of camel-case keys.\<close>

definition camel_to_snake :: "string \<Rightarrow> string" where
  "camel_to_snake k =
     concat (map (\<lambda>c. if 65 \<le> (of_char c :: nat) \<and> (of_char c :: nat) \<le> 90
                        then [CHR ''_'', char_of ((of_char c :: nat) + 32)] else [c]) k)"

definition call_params :: "(string \<times> json) list" where
  "call_params =
     [(''callSid'', JStr ''call-1''),
      (''customerData'', JObj [(''orderId'', JNum 7), (''nestedThing'', JObj [(''innerKey'', JBool True)])]),
      (''sipStatus'', JNum 200)]"

text \<open>
  The requestor built for \<^verbatim>\<open>rc=3\<close> once its first socket is open, and what follows when that
  socket drops and no later attempt succeeds: the drop, then ten times the reconnect
  timer, whose attempt fails, the close of the failed socket and the end of the attempt.
\<close>

definition open_ws_rc3 :: ws_requestor where
  "open_ws_rc3 = example_ws_rc3\<lparr>ws := Some 1, connections := 1\<rparr>"

definition ten_failed_reconnects :: "ws_call list" where
  "ten_failed_reconnects =
     OnClose 1006 # concat (replicate 10 [ReconnectTimer, OnClose 1006, ReconnectFailed])"

section \<open>Properties\<close>

subsection \<open>The concrete requestors\<close>

lemma parseInt_examples:
  "parseInt ''3'' = Some 3" "parseInt ''-7'' = Some (- 7)" "parseInt ''0'' = Some 0"
  "parseInt '' 12abc'' = Some 12" "parseInt ''abc'' = None" "parseInt ''0x1f'' = Some 31"
  by (simp_all add: parseInt_def isWhiteSpace_def isRadixDigit_def digitValue_def digitsValue_def)


lemma nopool_http_constructed:
  "OptimizedHttpRequestor nopool_env ''acct'' example_hook ''secret'' ''https://app.example'' =
     Inr nopool_http"
  by code_simp

lemma example_getClientConfig:
  "getClientConfig example_env example_http ''https://app.example/a'' =
     Inr \<lparr>cc_client = PoolFor ''https://app.example'', cc_path = ''/a'', cc_query = [],
          cc_absUrl = ''https://app.example/a''\<rparr>"
  by code_simp

subsection \<open>Status handling of the HTTP requestor\<close>

text \<open>
  Claim C5, as amended. For every response that reaches \<^verbatim>\<open>makeRequest\<close>: with status 200, 202
  or 204 and a \<^verbatim>\<open>content-type\<close> that contains \<^verbatim>\<open>application/json\<close> the result is what parsing
  the body as JSON yields; with one of these statuses and any other (or no) content type
  the result is the empty string; with any other status, the other 2xx statuses
  included, the request fails with \<^verbatim>\<open>HTTPResponseError\<close> carrying that status.
\<close>

theorem makeRequest_status_handling:
  assumes "getClientConfig env r url = Inr cfg"
  shows "makeRequest env r url method payload (\<lambda>_. Inr resp) =
     (if statusCode resp = 200 \<or> statusCode resp = 202 \<or> statusCode resp = 204
      then (if (case contentType resp of None \<Rightarrow> False | Some ct \<Rightarrow> js_includes ct ''application/json'')
            then bodyJson resp else Inr (JStr []))
      else Inl (HTTPResponseError (statusCode resp)))"
  using assms by (simp add: makeRequest_def Let_def)

theorem makeRequest_status_handling_witness:
  "makeRequest example_env example_http ''https://app.example/a'' ''POST'' None
     (\<lambda>_. Inr \<lparr>statusCode = 202, contentType = Some ''application/json; charset=utf-8'',
               bodyJson = Inr (JArr [])\<rparr>)
   = Inr (JArr [])"
  using makeRequest_status_handling [OF example_getClientConfig, of "''POST''" None
      "\<lparr>statusCode = 202, contentType = Some ''application/json; charset=utf-8'',
        bodyJson = Inr (JArr [])\<rparr>"]
  by (simp add: js_includes_def)

text \<open>
  Claim C5 as stated fails: status 201 is a 2xx status, and a 201 response with a JSON
  body is not accepted.
\<close>

theorem makeRequest_rejects_201:
  "makeRequest example_env example_http ''https://app.example/a'' ''POST'' None
     (\<lambda>_. Inr \<lparr>statusCode = 201, contentType = Some ''application/json'', bodyJson = Inr (JArr [])\<rparr>)
   = Inl (HTTPResponseError 201)"
  by (simp add: makeRequest_def example_getClientConfig)

subsection \<open>Requests without a connection pool\<close>

lemma constructed_without_pool:
  assumes "\<not> usePools_of (HTTP_POOL env)"
    and "OptimizedHttpRequestor env acct hook sec base = Inr r"
  shows "\<not> hr_usePools r \<and> \<not> hr_poolManager r"
  using assms
  by (auto simp: OptimizedHttpRequestor_def Let_def split: if_splits sum.splits)

lemma pooling_disabled:
  "\<not> usePools_of Unset" "\<not> usePools_of (EnvStr ''0'')" "\<not> usePools_of (EnvNum 0)"
  by (simp_all add: usePools_of_def parseInt_examples)

lemma getClientConfig_without_pool:
  assumes "\<not> hr_usePools r" and "\<not> hr_poolManager r"
  shows "\<exists>e. getClientConfig env r url = Inl e"
  using assms by (simp add: getClientConfig_def Let_def split: sum.splits)

lemma makeRequest_without_pool:
  assumes "\<not> hr_usePools r" and "\<not> hr_poolManager r"
  shows "\<exists>e. makeRequest env r url method payload transport = Inl e"
  using getClientConfig_without_pool [OF assms, of env url]
  by (auto simp: makeRequest_def)

lemma retryLoop_all_fail:
  assumes "\<forall>i. \<exists>e. makeRequest env r url meth payload (transport i) = Inl e"
    and "retryLoop env r url meth payload transport pol maxRetries retryCount lastError tr =
           (resp, le, tr')"
  shows "resp = None \<and> ((le = lastError \<and> tr' = tr) \<or> le \<noteq> None)"
  using assms
proof (induction env r url meth payload transport pol maxRetries retryCount lastError tr
    rule: retryLoop.induct)
  case (1 env r url meth payload transport pol maxRetries retryCount lastError tr)
  from "1.prems"(1) obtain e where e: "makeRequest env r url meth payload (transport retryCount) = Inl e"
    by blast
  show ?case
  proof (cases "int retryCount \<le> maxRetries")
    case False
    with "1.prems"(2) show ?thesis by (subst (asm) retryLoop.simps) simp
  next
    case le: True
    show ?thesis
    proof (cases "int (retryCount + 1) \<le> maxRetries \<and> shouldRetry env e pol")
      case False
      with "1.prems"(2) le e show ?thesis by (subst (asm) retryLoop.simps) auto
    next
      case True
      with "1.prems"(2) le e
      have again: "retryLoop env r url meth payload transport pol maxRetries (retryCount + 1) (Some e)
                   (tr @ [MakeRequest, Sleep (hr_backoffMs r * 2 ^ (retryCount + 1 - 1))]) = (resp, le, tr')"
        by (subst (asm) retryLoop.simps) simp
      from "1.IH" [OF le e _ "1.prems"(1) again] True
      show ?thesis by auto
    qed
  qed
qed

lemma request_retrying_all_fail:
  assumes "\<forall>u m p t. \<exists>e. makeRequest env r u m p t = Inl e"
    and "request_retrying env r url method payload transport parsedUrl = (res, tr)"
    and "MakeRequest \<in> set tr"
  shows "\<exists>e. res = Thrown e"
proof (cases "http_maxRetries (rc_of (if p_hash parsedUrl \<noteq> [] then parseHashParams env (p_hash parsedUrl) else []))")
  case None
  with assms(2,3) show ?thesis by (simp add: request_retrying_def Let_def)
next
  case (Some mx)
  obtain resp le tr' where loop:
    "retryLoop env r url method payload transport
       (retryPolicyValues_of (rp_of (if p_hash parsedUrl \<noteq> [] then parseHashParams env (p_hash parsedUrl) else [])))
       mx 0 None [] = (resp, le, tr')"
    by (metis prod_cases3)
  have "\<forall>i. \<exists>e. makeRequest env r url method payload (transport i) = Inl e" using assms(1) by blast
  from retryLoop_all_fail [OF this loop] have r: "resp = None" "tr' = [] \<or> le \<noteq> None" by auto
  show ?thesis
  proof (cases le)
    case None
    with r assms(2,3) Some loop show ?thesis by (simp add: request_retrying_def Let_def)
  next
    case (Some e)
    with r assms(2) \<open>http_maxRetries _ = Some mx\<close> loop show ?thesis
      by (auto simp add: request_retrying_def Let_def falsy_def)
  qed
qed

text \<open>
  Claim C10. When connection pooling is disabled (\<^verbatim>\<open>HTTP_POOL\<close> unset, \<^verbatim>\<open>0\<close> or anything else
  falsy) the constructor leaves \<^verbatim>\<open>poolManager\<close> undefined, every call of \<^verbatim>\<open>makeRequest\<close> ends
  in an error, whatever the network answers, and every \<^verbatim>\<open>request\<close> that reaches
  \<^verbatim>\<open>makeRequest\<close> fails instead of returning a response. No assumption on the proxy is
  needed.
\<close>

theorem unpooled_request_fails:
  assumes "\<not> usePools_of (HTTP_POOL env)"
    and "OptimizedHttpRequestor env acct h sec base = Inr r"
    and "http_request env r type hook params httpHeaders transport = (res, tr)"
    and "MakeRequest \<in> set tr"
  shows "\<not> hr_poolManager r \<and> (\<exists>e. makeRequest env r url method payload transport1 = Inl e) \<and>
         (\<exists>e. res = Thrown e)"
proof -
  from constructed_without_pool [OF assms(1,2)]
  have np: "\<not> hr_usePools r" "\<not> hr_poolManager r" by simp_all
  have fails: "\<forall>u m p t. \<exists>e. makeRequest env r u m p t = Inl e"
    using makeRequest_without_pool [OF np] by blast
  from assms(3,4) obtain parsedUrl where
    "request_retrying env r (hook_url hook) (method_of hook) (payload_of env params) transport parsedUrl
       = (res, tr)"
    unfolding http_request_def Let_def
    by (auto split: if_splits sum.splits)
  from request_retrying_all_fail [OF fails this assms(4)] have "\<exists>e. res = Thrown e" .
  with fails np show ?thesis by blast
qed

lemma nopool_request:
  "http_request nopool_env nopool_http ''verb:hook'' (HookUrl ''https://app.example/a'') None []
     (\<lambda>i c. Inr \<lparr>statusCode = 200, contentType = None, bodyJson = Inr JNull\<rparr>)
   = (Thrown TypeError, [MakeRequest, WriteAlert])"
  by code_simp

theorem unpooled_request_fails_witness:
  "\<not> usePools_of (HTTP_POOL nopool_env) \<and>
   MakeRequest \<in> set (snd (http_request nopool_env nopool_http ''verb:hook''
       (HookUrl ''https://app.example/a'') None []
       (\<lambda>i c. Inr \<lparr>statusCode = 200, contentType = None, bodyJson = Inr JNull\<rparr>))) \<and>
   (\<exists>e. fst (http_request nopool_env nopool_http ''verb:hook''
       (HookUrl ''https://app.example/a'') None []
       (\<lambda>i c. Inr \<lparr>statusCode = 200, contentType = None, bodyJson = Inr JNull\<rparr>)) = Thrown e)"
proof -
  have off: "\<not> usePools_of (HTTP_POOL nopool_env)"
    by (simp add: nopool_env_def usePools_of_def)
  have made: "MakeRequest \<in> set [MakeRequest, WriteAlert]" by simp
  from unpooled_request_fails [OF off nopool_http_constructed nopool_request made]
  show ?thesis using off by (simp add: nopool_request)
qed

subsection \<open>The requests and sleeps of the retry loops\<close>

lemma sleeps_append: "sleeps (a @ b) = sleeps a @ sleeps b"
  by (induction a rule: sleeps.induct) auto

lemma retryLoop_trace:
  assumes "retryLoop env r url meth payload transport pol mx rc le tr = (resp, le', tr')"
  shows "\<exists>n. sleeps tr' = sleeps tr @ map (\<lambda>k. hr_backoffMs r * 2 ^ k) [rc..<rc + n] \<and>
             int rc + int n \<le> max (int rc) mx \<and>
             count_list tr' MakeRequest = count_list tr MakeRequest + (if int rc \<le> mx then n + 1 else 0)"
  using assms
proof (induction env r url meth payload transport pol mx rc le tr rule: retryLoop.induct)
  case (1 env r url meth payload transport pol mx rc le tr)
  show ?case
  proof (cases "int rc \<le> mx")
    case False
    with "1.prems" have "tr' = tr" by (subst (asm) retryLoop.simps) simp
    with False show ?thesis by (intro exI [of _ 0]) simp
  next
    case enter: True
    show ?thesis
    proof (cases "makeRequest env r url meth payload (transport rc)")
      case (Inr v)
      with "1.prems" enter have "tr' = tr @ [MakeRequest]" by (subst (asm) retryLoop.simps) simp
      with enter show ?thesis by (intro exI [of _ 0]) (simp add: sleeps_append)
    next
      case (Inl e)
      show ?thesis
      proof (cases "int (rc + 1) \<le> mx \<and> shouldRetry env e pol")
        case False
        with "1.prems" enter Inl have "tr' = tr @ [MakeRequest]"
          by (subst (asm) retryLoop.simps) auto
        with enter show ?thesis by (intro exI [of _ 0]) (simp add: sleeps_append)
      next
        case True
        with "1.prems" enter Inl
        have again: "retryLoop env r url meth payload transport pol mx (rc + 1) (Some e)
                   (tr @ [MakeRequest, Sleep (hr_backoffMs r * 2 ^ (rc + 1 - 1))]) = (resp, le', tr')"
          by (subst (asm) retryLoop.simps) simp
        from "1.IH" [OF enter Inl _ again] True
        obtain n where n: "sleeps tr' = sleeps (tr @ [MakeRequest, Sleep (hr_backoffMs r * 2 ^ (rc + 1 - 1))]) @
               map (\<lambda>k. hr_backoffMs r * 2 ^ k) [rc + 1..<rc + 1 + n]"
           "int (rc + 1) + int n \<le> max (int (rc + 1)) mx"
           "count_list tr' MakeRequest = count_list (tr @ [MakeRequest, Sleep (hr_backoffMs r * 2 ^ (rc + 1 - 1))]) MakeRequest + (n + 1)"
          by auto
        have "[rc..<rc + Suc n] = rc # [rc + 1..<rc + 1 + n]"
          by (simp add: upt_rec)
        with n True enter show ?thesis
          by (intro exI [of _ "Suc n"]) (simp add: sleeps_append)
      qed
    qed
  qed
qed

lemma http_maxRetries_value:
  assumes "parseInt rc = Some N"
  shows "http_maxRetries (Some rc) = Some (min \<bar>N\<bar> 5)"
proof -
  from assms have "rc \<noteq> []" by (auto simp: parseInt_def)
  with assms show ?thesis by (simp add: http_maxRetries_def Math_min_def Math_abs_def)
qed

lemma ws_maxReconnects_value:
  assumes "parseInt rc = Some N"
  shows "ws_maxReconnects env (Some rc) =
           (if N = 0 then Math_min (Math_abs (MAX_RECONNECTS env)) 5 else Some (min \<bar>N\<bar> 5))"
  using assms by (simp add: ws_maxReconnects_def parseInt_prop_def num_or_def Math_min_def Math_abs_def)

lemma http_maxRetries_range:
  assumes "http_maxRetries rc = Some mx"
  shows "0 \<le> mx \<and> mx \<le> 5"
  using assms by (auto simp: http_maxRetries_def Math_min_def Math_abs_def)

lemma ws_maxReconnects_range:
  assumes "ws_maxReconnects env rc = Some m"
  shows "0 \<le> m \<and> m \<le> 5"
  using assms by (auto simp: ws_maxReconnects_def Math_min_def Math_abs_def)

lemma request_retrying_trace:
  assumes "request_retrying env r url meth payload transport parsedUrl = (res, tr)"
  shows "\<exists>n. sleeps tr = map (\<lambda>k. hr_backoffMs r * 2 ^ k) [0..<n] \<and>
             count_list tr MakeRequest \<le> n + 1 \<and>
             (case http_maxRetries (rc_of (if p_hash parsedUrl \<noteq> [] then parseHashParams env (p_hash parsedUrl) else [])) of
                None \<Rightarrow> n = 0 \<and> tr = []
              | Some mx \<Rightarrow> int n \<le> mx)"
proof (cases "http_maxRetries (rc_of (if p_hash parsedUrl \<noteq> [] then parseHashParams env (p_hash parsedUrl) else []))")
  case None
  with assms have "tr = []" by (simp add: request_retrying_def Let_def)
  with None show ?thesis by (intro exI [of _ 0]) simp
next
  case (Some mx)
  from http_maxRetries_range [OF Some] have mx: "0 \<le> mx" by simp
  obtain resp le tr' where loop:
    "retryLoop env r url meth payload transport
       (retryPolicyValues_of (rp_of (if p_hash parsedUrl \<noteq> [] then parseHashParams env (p_hash parsedUrl) else [])))
       mx 0 None [] = (resp, le, tr')"
    by (metis prod_cases3)
  from retryLoop_trace [OF loop] mx obtain n where n:
    "sleeps tr' = map (\<lambda>k. hr_backoffMs r * 2 ^ k) [0..<n]" "int n \<le> mx"
    "count_list tr' MakeRequest = n + 1"
    by auto
  from assms Some loop have "tr = tr' \<or> tr = tr' @ [WriteAlert]"
    by (auto simp: request_retrying_def Let_def split: option.splits if_splits)
  with n Some show ?thesis
    by (intro exI [of _ n]) (auto simp: sleeps_append)
qed


subsection \<open>The retry limit of a requestor is fixed\<close>

lemma maxReconnects_settle [simp]: "maxReconnects (settle p out s) = maxReconnects s"
  by (simp add: settle_def)

lemma maxReconnects_success [simp]: "maxReconnects (success e response s) = maxReconnects s"
  by (simp add: success_def clearTimeout_def Let_def split: option.splits)

lemma maxReconnects_failure [simp]: "maxReconnects (failure e err s) = maxReconnects s"
  by (simp add: failure_def clearTimeout_def Let_def split: option.splits)

lemma maxReconnects_responseTimeout [simp]: "maxReconnects (responseTimeout t s) = maxReconnects s"
  by (simp add: responseTimeout_def Let_def split: option.splits)

lemma maxReconnects_recvAck [simp]: "maxReconnects (recvAck msgid data s) = maxReconnects s"
  by (simp add: recvAck_def Let_def split: option.splits json.splits)

lemma maxReconnects_clearPendingLoop [simp]:
  "maxReconnects (fst (clearPendingLoop es s)) = maxReconnects s"
  by (induction es s rule: clearPendingLoop.induct) (simp_all add: Let_def clearTimeout_def)

lemma maxReconnects_clearPendingMessages [simp]:
  "maxReconnects (fst (clearPendingMessages s)) = maxReconnects s"
  by (simp add: clearPendingMessages_def case_prod_beta split: option.splits)

lemma maxReconnects_close [simp]: "maxReconnects (fst (close code s)) = maxReconnects s"
  by (simp add: close_def Let_def stopPingTimer_def split: option.splits)

lemma maxReconnects_onSocketClosed [simp]: "maxReconnects (fst (onSocketClosed s)) = maxReconnects s"
  by (simp add: onSocketClosed_def Let_def scheduleReconnect_def stopPingTimer_def case_prod_beta
      split: option.splits)

lemma maxReconnects_onClose [simp]: "maxReconnects (fst (onClose code s)) = maxReconnects s"
  by (simp add: onClose_def Let_def stopPingTimer_def case_prod_beta split: option.splits)

lemma maxReconnects_failedAttempt [simp]:
  "maxReconnects (fst (snd (failedAttempt f code s))) = maxReconnects s"
  by (simp add: failedAttempt_def onError_def onUnexpectedResponse_def case_prod_beta
      split: connect_failure.splits option.splits)

lemma maxReconnects_queueMsg [simp]:
  "maxReconnects (fst (snd (queueMsg type hook params hdrs s))) = maxReconnects s"
  by (simp add: queueMsg_def Let_def)

lemma maxReconnects_request_head:
  "case request_head env type hook params hdrs s of
     Inl (res, s1, effs) \<Rightarrow> maxReconnects s1 = maxReconnects s
   | Inr s1 \<Rightarrow> maxReconnects s1 = maxReconnects s"
  by (simp add: request_head_def Let_def setCallSid_def newReconnectPromise_def case_prod_beta)

lemma maxReconnects_send_message [simp]:
  "maxReconnects (fst (snd (send_message type hook payload hdrs msgid s))) = maxReconnects s"
  by (simp add: send_message_def Let_def rekey_def register_def case_prod_beta split: option.splits)

lemma maxReconnects_request_send [simp]:
  "maxReconnects (fst (snd (request_send env type hook params hdrs msgid s))) = maxReconnects s"
  by (simp add: request_send_def Let_def)

lemma maxReconnects_request_ws [simp]:
  "maxReconnects (fst (snd (request_ws env type hook params hdrs msgid s))) = maxReconnects s"
  using maxReconnects_request_head [where env = env and type = type and hook = hook and params = params and hdrs = hdrs and s = s]
  by (auto simp: request_ws_def split: sum.splits)

lemma maxReconnects_onOpen [simp]:
  "maxReconnects (fst (onOpen env sock msgid s)) = maxReconnects s"
  by (simp add: onOpen_def Let_def case_prod_beta split: option.splits)

lemma maxReconnects_connectLoop [simp]:
  "maxReconnects (fst (snd (connectLoop env attempt rc s tr))) = maxReconnects s"
proof (induction env attempt rc s tr rule: connectLoop.induct)
  case (1 env attempt rc s tr)
  let ?s0 = "stopPingTimer (s\<lparr>ws := None\<rparr>)"
  show ?case
  proof (cases "num_le rc (maxReconnects s)")
    case False
    then show ?thesis by (subst connectLoop.simps) simp
  next
    case enter: True
    show ?thesis
    proof (cases "attempt rc")
      case (Opens sock msgid)
      with enter show ?thesis
        by (subst connectLoop.simps) (simp add: Let_def case_prod_beta stopPingTimer_def)
    next
      case (Fails f code)
      obtain rejected s1 effs where fa: "failedAttempt f code ?s0 = (rejected, s1, effs)"
        by (cases "failedAttempt f code ?s0")
      from fa maxReconnects_failedAttempt [of f code ?s0]
      have keep: "maxReconnects s1 = maxReconnects s" by (simp add: stopPingTimer_def)
      show ?thesis
      proof (cases "rejected \<and> num_le (rc + 1) (maxReconnects s1) \<and> retryPolicyValues s1 \<noteq> [] \<and>
                       shouldRetry env (errorOf f) (retryPolicyValues s1)")
        case False
        with enter Fails fa keep show ?thesis
          by (subst connectLoop.simps) (auto simp: Let_def)
      next
        case True
        then have r: "\<not> \<not> rejected" and c: "num_le (rc + 1) (maxReconnects s1) \<and> retryPolicyValues s1 \<noteq> [] \<and>
                       shouldRetry env (errorOf f) (retryPolicyValues s1)" by simp_all
        from "1.IH" [OF enter refl Fails fa [symmetric] refl r c] keep
        have "maxReconnects (fst (snd (connectLoop env attempt (rc + 1)
                 (s1\<lparr>backoffMs := nextBackoff (backoffMs s1)\<rparr>)
                 (tr @ Connect # effs @ [Sleep (backoffMs s1)])))) = maxReconnects s"
          by simp
        with enter Fails fa True show ?thesis
          by (subst connectLoop.simps) (simp add: Let_def)
      qed
    qed
  qed
qed

lemma maxReconnects_request [simp]:
  "maxReconnects (fst (snd (request env type hook params hdrs msgid attempt s))) = maxReconnects s"
proof (cases "request_head env type hook params hdrs s")
  case (Inl a)
  with maxReconnects_request_head [where env = env and type = type and hook = hook and params = params and hdrs = hdrs and s = s]
  show ?thesis by (auto simp: request_def)
next
  case (Inr s1)
  with maxReconnects_request_head [where env = env and type = type and hook = hook and params = params and hdrs = hdrs and s = s]
  have keep: "maxReconnects s1 = maxReconnects s" by simp
  have "maxReconnects (fst (snd (connectLoop env attempt 0 (s1\<lparr>connectInProgress := True\<rparr>) []))) = maxReconnects s"
    using keep by simp
  with Inr keep show ?thesis
    by (simp add: request_def case_prod_beta split: connect_end.splits)
qed

lemma maxReconnects_tryMessage:
  assumes "tryMessage parsed s = Some (s1, effs)"
  shows "maxReconnects s1 = maxReconnects s"
  using assms
  by (auto simp: tryMessage_def Let_def split: option.splits json.splits if_splits)

lemma maxReconnects_onMessage [simp]:
  "maxReconnects (fst (onMessage env content parsed flag details msgid attempt s)) = maxReconnects s"
proof (cases "tryMessage parsed s")
  case None
  then show ?thesis
    by (simp add: onMessage_def Let_def case_prod_beta split: option.splits)
next
  case (Some a)
  obtain s1 effs where "a = (s1, effs)" by (cases a)
  with Some maxReconnects_tryMessage [of parsed s s1 effs] show ?thesis
    by (simp add: onMessage_def Let_def split: option.splits)
qed

lemma maxReconnects_ws_step [simp]: "maxReconnects (fst (ws_step env c s)) = maxReconnects s"
  by (cases c) (simp_all add: case_prod_beta reconnectTimer_def reconnectFailed_def stopPingTimer_def)

lemma maxReconnects_ws_run [simp]: "maxReconnects (fst (ws_run env calls s)) = maxReconnects s"
  by (induction calls arbitrary: s) (simp_all add: case_prod_beta)

subsection \<open>The attempts and sleeps of the loop that connects\<close>

lemma onSocketClosed_effects:
  "sleeps (fst (snd (onSocketClosed s))) = [] \<and> count_list (fst (snd (onSocketClosed s))) Connect = 0"
  by (simp add: onSocketClosed_def Let_def scheduleReconnect_def case_prod_beta split: option.splits)

lemma onClose_effects:
  "sleeps (fst (snd (onClose code s))) = [] \<and> count_list (fst (snd (onClose code s))) Connect = 0"
  by (simp add: onClose_def Let_def case_prod_beta onSocketClosed_effects split: option.splits)

lemma failedAttempt_effects:
  "sleeps (snd (snd (failedAttempt f code s))) = [] \<and>
   count_list (snd (snd (failedAttempt f code s))) Connect = 0"
  by (simp add: failedAttempt_def onError_def onUnexpectedResponse_def case_prod_beta sleeps_append
      onClose_effects split: connect_failure.splits option.splits)

lemma failedAttempt_unconnected:
  assumes "connections s = 0" and "ws s = None"
  shows "fst (failedAttempt f code s) \<and> connections (fst (snd (failedAttempt f code s))) = 0 \<and>
         backoffMs (fst (snd (failedAttempt f code s))) = backoffMs s"
  using assms
  by (simp add: failedAttempt_def onError_def onUnexpectedResponse_def onClose_def Let_def
      stopPingTimer_def case_prod_beta split: connect_failure.splits option.splits)

lemma map_funpow_shift:
  "b # map (\<lambda>k. (f ^^ k) (f b)) [0..<n] = map (\<lambda>k. (f ^^ k) b) [0..<Suc n]"
  by (simp only: map_upt_Suc funpow_swap1 [symmetric]) (simp add: funpow_swap1)

lemma queueMsg_effects: "snd (snd (queueMsg type hook params hdrs s)) = []"
  by (simp add: queueMsg_def Let_def)

lemma send_message_effects:
  "\<exists>obj. snd (snd (send_message type hook payload hdrs msgid s)) = [WsSend obj]"
  by (simp add: send_message_def Let_def case_prod_beta)

lemma close_effects:
  assumes "close code s = (s', effs)"
  shows "sleeps effs = [] \<and> count_list effs Connect = 0"
  using assms by (auto simp: close_def Let_def split: option.splits)

lemma request_send_effects:
  "sleeps (snd (snd (request_send env type hook params hdrs msgid s))) = [] \<and>
   count_list (snd (snd (request_send env type hook params hdrs msgid s))) Connect = 0"
proof -
  have "snd (snd (request_send env type hook params hdrs msgid s)) = [] \<or>
        (\<exists>obj. snd (snd (request_send env type hook params hdrs msgid s)) = [WsSend obj])"
    using send_message_effects
    by (simp add: request_send_def queueMsg_effects Let_def)
  then show ?thesis by auto
qed

lemma request_head_effects:
  assumes "request_head env type hook params hdrs s = Inl (res, s', effs)"
  shows "sleeps effs = [] \<and> count_list effs Connect = 0"
  using assms
  by (auto simp: request_head_def Let_def sleeps_append split: if_splits prod.splits dest: close_effects)

lemma request_ws_effects:
  "sleeps (snd (snd (request_ws env type hook params hdrs msgid s))) = [] \<and>
   count_list (snd (snd (request_ws env type hook params hdrs msgid s))) Connect = 0"
proof (cases "request_head env type hook params hdrs s")
  case (Inl a)
  obtain res s' effs where "a = (res, s', effs)" by (cases a) auto
  with Inl request_head_effects [of env type hook params hdrs s res s' effs]
  show ?thesis by (simp add: request_ws_def)
next
  case (Inr b)
  then show ?thesis using request_send_effects by (simp add: request_ws_def)
qed

lemma onOpen_effects:
  "sleeps (fst (snd (onOpen env sock msgid s))) = [] \<and>
   count_list (fst (snd (onOpen env sock msgid s))) Connect = 0"
  using request_ws_effects [of env "''session:reconnect''" "HookUrl (ws_url s)" None "[]" msgid
      "s\<lparr>ws := Some sock, connectInProgress := False, connections := connections s + 1\<rparr>"]
  by (auto simp: onOpen_def Let_def split: prod.splits option.splits)

lemma connectLoop_trace:
  assumes "connectLoop env attempt rc s tr = (e, s', tr')"
  shows "\<exists>n. length (sleeps tr') = length (sleeps tr) + n \<and>
             (connections s = 0 \<longrightarrow>
                sleeps tr' = sleeps tr @ map (\<lambda>k. (nextBackoff ^^ k) (backoffMs s)) [0..<n]) \<and>
             (if num_le rc (maxReconnects s)
              then num_le (rc + n) (maxReconnects s) \<and> count_list tr' Connect = count_list tr Connect + n + 1
              else n = 0 \<and> tr' = tr)"
  using assms
proof (induction env attempt rc s tr rule: connectLoop.induct)
  case (1 env attempt rc s tr)
  let ?s0 = "stopPingTimer (s\<lparr>ws := None\<rparr>)"
  show ?case
  proof (cases "num_le rc (maxReconnects s)")
    case False
    with "1.prems" have "tr' = tr" by (subst (asm) connectLoop.simps) simp
    with False show ?thesis by (intro exI [of _ 0]) simp
  next
    case enter: True
    show ?thesis
    proof (cases "attempt rc")
      case (Opens sock msgid)
      with "1.prems" enter
      have "tr' = tr @ Connect # fst (snd (onOpen env sock msgid ?s0))"
        by (subst (asm) connectLoop.simps) (auto simp: Let_def split: prod.splits)
      with enter onOpen_effects [of env sock msgid ?s0]
      show ?thesis by (intro exI [of _ 0]) (simp add: sleeps_append)
    next
      case (Fails f code)
      obtain rejected s1 effs where fa: "failedAttempt f code ?s0 = (rejected, s1, effs)"
        by (cases "failedAttempt f code ?s0")
      from fa maxReconnects_failedAttempt [of f code ?s0]
      have keep: "maxReconnects s1 = maxReconnects s" by (simp add: stopPingTimer_def)
      from fa failedAttempt_effects [of f code ?s0]
      have effs: "sleeps effs = []" "count_list effs Connect = 0" by simp_all
      from fa failedAttempt_unconnected [of ?s0 f code]
      have unconnected: "connections s1 = 0 \<and> backoffMs s1 = backoffMs s" if "connections s = 0"
        using that by (simp add: stopPingTimer_def)
      show ?thesis
      proof (cases "rejected \<and> num_le (rc + 1) (maxReconnects s1) \<and> retryPolicyValues s1 \<noteq> [] \<and>
                       shouldRetry env (errorOf f) (retryPolicyValues s1)")
        case False
        with "1.prems" enter Fails fa have "tr' = tr @ Connect # effs"
          by (subst (asm) connectLoop.simps) (auto simp: Let_def split: if_splits)
        with enter effs show ?thesis by (intro exI [of _ 0]) (simp add: sleeps_append)
      next
        case True
        then have r: "\<not> \<not> rejected" and c: "num_le (rc + 1) (maxReconnects s1) \<and> retryPolicyValues s1 \<noteq> [] \<and>
                       shouldRetry env (errorOf f) (retryPolicyValues s1)" by simp_all
        let ?s2 = "s1\<lparr>backoffMs := nextBackoff (backoffMs s1)\<rparr>"
        let ?tr2 = "tr @ Connect # effs @ [Sleep (backoffMs s1)]"
        from "1.prems" enter Fails fa True
        have again: "connectLoop env attempt (rc + 1) ?s2 ?tr2 = (e, s', tr')"
          by (subst (asm) connectLoop.simps) (simp add: Let_def)
        have next_le: "num_le (rc + 1) (maxReconnects ?s2)"
          using c by simp
        from "1.IH" [OF enter refl Fails fa [symmetric] refl r c again]
        obtain n where ih:
          "length (sleeps tr') = length (sleeps ?tr2) + n \<and>
           (connections ?s2 = 0 \<longrightarrow>
              sleeps tr' = sleeps ?tr2 @ map (\<lambda>k. (nextBackoff ^^ k) (backoffMs ?s2)) [0..<n]) \<and>
           (if num_le (rc + 1) (maxReconnects ?s2)
              then num_le (rc + 1 + n) (maxReconnects ?s2) \<and>
                   count_list tr' Connect = count_list ?tr2 Connect + n + 1
              else n = 0 \<and> tr' = ?tr2)"
          ..
        note n = conjunct1 [OF ih] conjunct1 [OF conjunct2 [OF ih]] conjunct2 [OF conjunct2 [OF ih]]
        from n(3) next_le have n3: "num_le (rc + 1 + n) (maxReconnects s)"
          "count_list tr' Connect = count_list tr Connect + Suc n + 1"
          by (simp_all add: keep effs)
        from n(1) have n1: "length (sleeps tr') = length (sleeps tr) + Suc n"
          by (simp add: sleeps_append effs)
        have n2: "sleeps tr' = sleeps tr @ map (\<lambda>k. (nextBackoff ^^ k) (backoffMs s)) [0..<Suc n]"
          if z: "connections s = 0"
        proof -
          from n(2) unconnected [OF z]
          have "sleeps tr' = sleeps tr @ (backoffMs s # map (\<lambda>k. (nextBackoff ^^ k) (nextBackoff (backoffMs s))) [0..<n])"
            by (simp add: sleeps_append effs)
          then show ?thesis by (simp only: map_funpow_shift)
        qed
        from n1 n2 n3 enter show ?thesis
          by (intro exI [of _ "Suc n"]) simp
      qed
    qed
  qed
qed

lemma request_head_keeps:
  assumes "request_head env type hook params hdrs s = Inr s1"
  shows "maxReconnects s1 = maxReconnects s \<and> backoffMs s1 = backoffMs s \<and> connections s1 = connections s"
  using assms
  by (auto simp: request_head_def Let_def setCallSid_def newReconnectPromise_def split: if_splits prod.splits)

lemma ws_request_trace:
  assumes "request env type hook params hdrs msgid attempt s = (res, s', tr)"
  shows "\<exists>n. length (sleeps tr) = n \<and>
             (connections s = 0 \<longrightarrow> sleeps tr = map (\<lambda>k. (nextBackoff ^^ k) (backoffMs s)) [0..<n]) \<and>
             count_list tr Connect \<le> n + 1 \<and>
             (case maxReconnects s of None \<Rightarrow> n = 0 \<and> count_list tr Connect = 0 | Some m \<Rightarrow> int n \<le> max 0 m)"
proof (cases "request_head env type hook params hdrs s")
  case (Inl a)
  obtain r1 s1 e1 where a: "a = (r1, s1, e1)" by (cases a) auto
  with Inl assms have "tr = e1" by (simp add: request_def)
  with request_head_effects [OF Inl [unfolded a]] show ?thesis
    by (simp split: option.splits)
next
  case (Inr s1)
  note keep = request_head_keeps [OF Inr]
  show ?thesis
  proof (cases "ws s1 = None \<and> \<not> connectInProgress s1")
    case False
    with Inr assms have "tr = snd (snd (queueMsg type hook params hdrs s1)) \<or>
        tr = snd (snd (request_send env type hook params hdrs msgid s1))"
      by (auto simp: request_def split: if_splits)
    with queueMsg_effects [of type hook params hdrs s1]
      request_send_effects [of env type hook params hdrs msgid s1]
    have "sleeps tr = [] \<and> count_list tr Connect = 0" by auto
    then show ?thesis by (simp split: option.splits)
  next
    case True
    obtain e s2 tr1 where loop: "connectLoop env attempt 0 (s1\<lparr>connectInProgress := True\<rparr>) [] = (e, s2, tr1)"
      by (metis prod_cases3)
    from Inr assms True loop
    have "tr = tr1 \<or> tr = tr1 @ snd (snd (request_send env type hook params hdrs msgid s2))"
      by (auto simp: request_def split: connect_end.splits prod.splits)
    with request_send_effects [of env type hook params hdrs msgid s2]
    have tr: "sleeps tr = sleeps tr1" "count_list tr Connect = count_list tr1 Connect"
      by (auto simp: sleeps_append)
    from connectLoop_trace [OF loop] obtain n where n0:
      "length (sleeps tr1) = length (sleeps []) + n \<and>
       (connections (s1\<lparr>connectInProgress := True\<rparr>) = 0 \<longrightarrow>
          sleeps tr1 = sleeps [] @ map (\<lambda>k. (nextBackoff ^^ k) (backoffMs (s1\<lparr>connectInProgress := True\<rparr>))) [0..<n]) \<and>
       (if num_le 0 (maxReconnects (s1\<lparr>connectInProgress := True\<rparr>))
        then num_le (0 + n) (maxReconnects (s1\<lparr>connectInProgress := True\<rparr>)) \<and>
             count_list tr1 Connect = count_list [] Connect + n + 1
        else n = 0 \<and> tr1 = [])"
      ..
    then have n:
      "length (sleeps tr1) = n"
      "connections s1 = 0 \<longrightarrow> sleeps tr1 = map (\<lambda>k. (nextBackoff ^^ k) (backoffMs s1)) [0..<n]"
      "if num_le 0 (maxReconnects s1)
       then num_le (0 + n) (maxReconnects s1) \<and> count_list tr1 Connect = n + 1
       else n = 0 \<and> tr1 = []"
      by (simp_all cong: if_cong)
    from n tr keep show ?thesis
      by (auto simp: num_le_def split: option.splits if_splits)
  qed
qed

subsection \<open>Handover between the transports\<close>

lemma http_handover:
  assumes "type \<noteq> ''jambonz:error''" and "type \<in> set (HookMsgTypes env)"
    and "method_of hook \<in> set [''GET'', ''POST'']"
    and "isAbsoluteUrl (hook_url hook)" and "startsWith (hook_url hook) ''ws''"
    and "WsRequestor env (hr_account_sid r) (hook_object hook) (hr_secret r) = Inr w"
  shows "http_request env r type hook params httpHeaders transport =
     (Delegated (NewWsRequestor (hr_account_sid r) (hook_object hook) (hr_secret r)) ''session:new'' hook params
        (addUserAgent env httpHeaders),
      if type = ''session:redirect''
      then [HttpClose, Emit (Handover (NewWsRequestor (hr_account_sid r) (hook_object hook) (hr_secret r)))]
      else [])"
proof -
  from assms(4) have "hook_url hook \<noteq> []" by (auto simp: isAbsoluteUrl_def startsWith_def)
  with assms show ?thesis by (simp add: http_request_def Let_def)
qed

lemma ws_handover:
  assumes "type \<in> set (HookMsgTypes env)"
    and "\<not> maliciousClient s" and "\<not> closedGracefully s"
    and "type = ''session:new'' \<longrightarrow> params \<noteq> None"
    and "isAbsoluteUrl (hook_url hook)" and "startsWith (hook_url hook) ''http''"
  shows "request env type hook params httpHeaders msgid attempt s =
     (Delegated (NewHttpRequestor (ws_account_sid s) (hook_object hook) (ws_secret s)) type hook params httpHeaders,
      if type = ''session:redirect''
      then (fst (close None s),
            snd (close None s) @
              [Emit (Handover (NewHttpRequestor (ws_account_sid s) (hook_object hook) (ws_secret s)))])
      else (if type = ''session:new'' then setCallSid params s
            else if type = ''session:reconnect'' then newReconnectPromise s else s, []))"
  using assms
  by (auto simp: request_def request_head_def Let_def setCallSid_def newReconnectPromise_def split: prod.splits)

text \<open>
  Claim C4, as amended. When the URL of the hook is absolute with the scheme of the other
  transport (\<^verbatim>\<open>ws\<close> or \<^verbatim>\<open>wss\<close> seen by the HTTP requestor, for a type other than
  \<^verbatim>\<open>jambonz:error\<close>; \<^verbatim>\<open>http\<close> or \<^verbatim>\<open>https\<close> seen by a WebSocket requestor that is neither
  marked malicious nor closed gracefully), a requestor of the other kind is constructed
  from the same \<^verbatim>\<open>account_sid\<close>, hook and \<^verbatim>\<open>secret\<close> and the request is passed on to it
  (as \<^verbatim>\<open>session:new\<close> by the HTTP requestor). The \<^verbatim>\<open>handover\<close> event carrying the new
  requestor is emitted, after \<^verbatim>\<open>close()\<close> on self, exactly when the message type is
  \<^verbatim>\<open>session:redirect\<close>; for every other type nothing is emitted and self is not closed.
\<close>

theorem handover_to_other_transport:
  "(type \<noteq> ''jambonz:error'' \<and> type \<in> set (HookMsgTypes env) \<and>
    method_of hook \<in> set [''GET'', ''POST''] \<and>
    isAbsoluteUrl (hook_url hook) \<and> startsWith (hook_url hook) ''ws'' \<and>
    WsRequestor env (hr_account_sid r) (hook_object hook) (hr_secret r) = Inr w \<longrightarrow>
    http_request env r type hook params httpHeaders transport =
      (Delegated (NewWsRequestor (hr_account_sid r) (hook_object hook) (hr_secret r)) ''session:new''
         hook params (addUserAgent env httpHeaders),
       if type = ''session:redirect''
       then [HttpClose, Emit (Handover (NewWsRequestor (hr_account_sid r) (hook_object hook) (hr_secret r)))]
       else [])) \<and>
   (type \<in> set (HookMsgTypes env) \<and> \<not> maliciousClient s \<and> \<not> closedGracefully s \<and>
    (type = ''session:new'' \<longrightarrow> params \<noteq> None) \<and>
    isAbsoluteUrl (hook_url hook) \<and> startsWith (hook_url hook) ''http'' \<longrightarrow>
    request env type hook params httpHeaders msgid attempt s =
      (Delegated (NewHttpRequestor (ws_account_sid s) (hook_object hook) (ws_secret s)) type hook params
         httpHeaders,
       if type = ''session:redirect''
       then (fst (close None s),
             snd (close None s) @
               [Emit (Handover (NewHttpRequestor (ws_account_sid s) (hook_object hook) (ws_secret s)))])
       else (if type = ''session:new'' then setCallSid params s
             else if type = ''session:reconnect'' then newReconnectPromise s else s, [])))"
  using http_handover [of type env hook r w params httpHeaders transport]
    ws_handover [of type env s params hook httpHeaders msgid attempt]
  by blast

lemma example_ws_constructed:
  "WsRequestor example_env ''acct'' ws_hook ''secret'' = Inr example_ws"
  by (simp add: WsRequestor_def example_env_def ws_hook_def example_ws_def isAbsoluteUrl_def startsWith_def
     example_parseUrl_def hashOf_def ws_maxReconnects_def parseInt_prop_def num_or_def Math_abs_def Math_min_def
     retryPolicyValues_of_def trim_def isWhiteSpace_def)

text \<open>
  Claim C4 as stated fails: a \<^verbatim>\<open>verb:hook\<close> sent by the HTTP requestor to a \<^verbatim>\<open>wss\<close> URL is
  passed on to a new WebSocket requestor, and no \<^verbatim>\<open>handover\<close> event is emitted.
\<close>

theorem no_handover_event_for_verb_hook:
  "http_request example_env example_http ''verb:hook'' (HookUrl ''wss://app.example/ws'') None [] always_500 =
     (Delegated (NewWsRequestor ''acct'' ws_hook ''secret'') ''session:new''
        (HookUrl ''wss://app.example/ws'') None [], [])"
  by code_simp

theorem handover_to_other_transport_witness:
  "http_request example_env example_http ''session:redirect'' (HookUrl ''wss://app.example/ws'') None []
     always_500 =
     (Delegated (NewWsRequestor ''acct'' ws_hook ''secret'') ''session:new''
        (HookUrl ''wss://app.example/ws'') None [],
      [HttpClose, Emit (Handover (NewWsRequestor ''acct'' ws_hook ''secret''))]) \<and>
   fst (request example_env ''session:redirect'' (HookUrl ''https://app.example/a'') None [] ''m1''
          never_connects example_ws) =
     Delegated (NewHttpRequestor ''acct'' example_hook ''secret'') ''session:redirect''
        (HookUrl ''https://app.example/a'') None [] \<and>
   closedGracefully (fst (snd (request example_env ''session:redirect'' (HookUrl ''https://app.example/a'')
          None [] ''m1'' never_connects example_ws))) \<and>
   snd (snd (request example_env ''session:redirect'' (HookUrl ''https://app.example/a'') None [] ''m1''
          never_connects example_ws)) =
     [Emit (Handover (NewHttpRequestor ''acct'' example_hook ''secret''))]"
proof -
  have ty: "''session:redirect'' \<in> set (HookMsgTypes example_env)"
    by (simp add: example_env_def)
  have a1: "isAbsoluteUrl (hook_url (HookUrl ''wss://app.example/ws''))"
    "startsWith (hook_url (HookUrl ''wss://app.example/ws'')) ''ws''"
    "isAbsoluteUrl (hook_url (HookUrl ''https://app.example/a''))"
    "startsWith (hook_url (HookUrl ''https://app.example/a'')) ''http''"
    by (simp_all add: isAbsoluteUrl_def startsWith_def hook_url_def)
  have m: "method_of (HookUrl ''wss://app.example/ws'') \<in> set [''GET'', ''POST'']"
    by (simp add: method_of_def)
  have c: "WsRequestor example_env (hr_account_sid example_http) (hook_object (HookUrl ''wss://app.example/ws''))
             (hr_secret example_http) = Inr example_ws"
    using example_ws_constructed by (simp add: example_http_def hook_object_def ws_hook_def)
  have s: "\<not> maliciousClient example_ws" "\<not> closedGracefully example_ws"
    by (simp_all add: example_ws_def)
  have cl: "closedGracefully (fst (close None example_ws))" "snd (close None example_ws) = []"
    by (simp_all add: close_def example_ws_def stopPingTimer_def clearPendingMessages_def)
  from handover_to_other_transport [of "''session:redirect''" example_env "HookUrl ''wss://app.example/ws''"
      example_http example_ws None "[]" always_500 example_ws "''m1''" never_connects]
    handover_to_other_transport [of "''session:redirect''" example_env "HookUrl ''https://app.example/a''"
      example_http example_ws None "[]" always_500 example_ws "''m1''" never_connects]
    ty a1 m c s cl
  show ?thesis
    by (simp add: example_http_def example_ws_def hook_object_def ws_hook_def example_hook_def addUserAgent_def example_env_def)
qed

subsection \<open>The retry count\<close>

lemma WsRequestor_maxReconnects:
  assumes "WsRequestor env acct hook sec = Inr w"
    and "parseUrl env (h_url hook) = Inr u"
  shows "maxReconnects w =
           ws_maxReconnects env (map_of (if p_hash u \<noteq> [] then parseHashParams env (p_hash u) else []) ''rc'') \<and>
         backoffMs w = 500"
  using assms by (auto simp: WsRequestor_def Let_def split: if_splits)

lemma http_request_reaches_loop:
  assumes "http_request env r type hook params hdrs transport = (res, tr)"
    and "MakeRequest \<in> set tr"
    and "parseUrl env (if isRelativeUrl (hook_url hook) then hr_baseUrl r @ hook_url hook else hook_url hook) = Inr u"
  shows "request_retrying env r (hook_url hook) (method_of hook) (payload_of env params) transport u = (res, tr)"
  using assms unfolding http_request_def Let_def
  by (auto split: if_splits sum.splits)

lemma ws_request_attempts:
  assumes "request env type hook params hdrs msgid attempt s = (res, s', tr)"
    and "maxReconnects s = ws_maxReconnects env rc"
  shows "case ws_maxReconnects env rc of
           None \<Rightarrow> count_list tr Connect = 0
         | Some L \<Rightarrow> count_list tr Connect \<le> nat L + 1"
proof -
  from ws_request_trace [OF assms(1)] obtain n where n:
    "count_list tr Connect \<le> n + 1"
    "case maxReconnects s of None \<Rightarrow> n = 0 \<and> count_list tr Connect = 0 | Some m \<Rightarrow> int n \<le> max 0 m"
    by blast
  show ?thesis
  proof (cases "ws_maxReconnects env rc")
    case None
    with n assms(2) show ?thesis by simp
  next
    case (Some L)
    from ws_maxReconnects_range [OF Some] have "0 \<le> L" by simp
    with n assms(2) Some have "int n \<le> L" by simp
    with n(1) Some show ?thesis by simp
  qed
qed

text \<open>
  Claim C6, as amended. For a hook URL whose fragment carries \<^verbatim>\<open>rc=N\<close>, where \<^verbatim>\<open>parseInt\<close> reads
  the integer \<open>N\<close>: the retry limit of an HTTP request (\<^verbatim>\<open>maxRetries\<close>) is \<open>min(|N|, 5)\<close>; the
  retry limit of a WebSocket requestor (\<^verbatim>\<open>maxReconnects\<close>), which the constructor sets and
  nothing changes afterwards, is \<open>min(|N|, 5)\<close> for \<open>N \<noteq> 0\<close> and \<open>min(|MAX_RECONNECTS|, 5)\<close>
  for \<open>N = 0\<close>; for \<open>N \<noteq> 0\<close> the limit lies between 1 and 5 (for \<open>N = 0\<close> the HTTP limit is 0).
  The limit bounds the retries of one call of \<^verbatim>\<open>request\<close>, so one call makes at most limit
  + 1 attempts: connection attempts in the loop of \<^verbatim>\<open>WsRequestor.request\<close>, whatever has
  happened to the requestor before, and requests of the HTTP requestor. The attempts of
  the reconnect timers that \<^verbatim>\<open>_onSocketClosed\<close> sets are not counted against the limit.
\<close>

theorem retry_count_clamped:
  assumes "parseInt rc = Some N"
  shows "http_maxRetries (Some rc) = Some (min \<bar>N\<bar> 5) \<and>
    ws_maxReconnects env (Some rc) =
      (if N = 0 then Math_min (Math_abs (MAX_RECONNECTS env)) 5 else Some (min \<bar>N\<bar> 5)) \<and>
    (N \<noteq> 0 \<longrightarrow> 1 \<le> min \<bar>N\<bar> 5 \<and> min \<bar>N\<bar> 5 \<le> 5) \<and>
    (WsRequestor env acct h sec = Inr w \<and> parseUrl env (h_url h) = Inr u \<and> p_hash u \<noteq> [] \<and>
       map_of (parseHashParams env (p_hash u)) ''rc'' = Some rc \<and>
       request env type hook params httpHeaders msgid attempt (fst (ws_run env calls w)) = (res, s', tr) \<longrightarrow>
       maxReconnects w = ws_maxReconnects env (Some rc) \<and>
       maxReconnects (fst (ws_run env calls w)) = ws_maxReconnects env (Some rc) \<and>
       (case ws_maxReconnects env (Some rc) of
          None \<Rightarrow> count_list tr Connect = 0
        | Some L \<Rightarrow> count_list tr Connect \<le> nat L + 1)) \<and>
    (parseUrl env (if isRelativeUrl (hook_url hook) then hr_baseUrl r @ hook_url hook else hook_url hook) = Inr u \<and>
       p_hash u \<noteq> [] \<and> rc_of (parseHashParams env (p_hash u)) = Some rc \<and>
       http_request env r type hook params httpHeaders transport = (res, tr) \<longrightarrow>
       count_list tr MakeRequest \<le> nat (min \<bar>N\<bar> 5) + 1)"
proof -
  have ws_attempts:
    "maxReconnects w = ws_maxReconnects env (Some rc) \<and>
     maxReconnects (fst (ws_run env calls w)) = ws_maxReconnects env (Some rc) \<and>
     (case ws_maxReconnects env (Some rc) of
        None \<Rightarrow> count_list tr Connect = 0
      | Some L \<Rightarrow> count_list tr Connect \<le> nat L + 1)"
    if "WsRequestor env acct h sec = Inr w \<and> parseUrl env (h_url h) = Inr u \<and> p_hash u \<noteq> [] \<and>
       map_of (parseHashParams env (p_hash u)) ''rc'' = Some rc \<and>
       request env type hook params httpHeaders msgid attempt (fst (ws_run env calls w)) = (res, s', tr)"
  proof -
    from that have c: "WsRequestor env acct h sec = Inr w" "parseUrl env (h_url h) = Inr u"
      and h: "p_hash u \<noteq> []" "map_of (parseHashParams env (p_hash u)) ''rc'' = Some rc"
      and req: "request env type hook params httpHeaders msgid attempt (fst (ws_run env calls w)) = (res, s', tr)"
      by simp_all
    from WsRequestor_maxReconnects [OF c] h
    have w: "maxReconnects w = ws_maxReconnects env (Some rc)" by simp
    then have run: "maxReconnects (fst (ws_run env calls w)) = ws_maxReconnects env (Some rc)"
      by simp
    from ws_request_attempts [OF req run] w run show ?thesis by simp
  qed
  have http_attempts: "count_list tr MakeRequest \<le> nat (min \<bar>N\<bar> 5) + 1"
    if "parseUrl env (if isRelativeUrl (hook_url hook) then hr_baseUrl r @ hook_url hook else hook_url hook) = Inr u \<and>
       p_hash u \<noteq> [] \<and> rc_of (parseHashParams env (p_hash u)) = Some rc \<and>
       http_request env r type hook params httpHeaders transport = (res, tr)"
  proof (cases "MakeRequest \<in> set tr")
    case False
    then show ?thesis by simp
  next
    case True
    from that have u: "parseUrl env (if isRelativeUrl (hook_url hook) then hr_baseUrl r @ hook_url hook else hook_url hook) = Inr u"
      and h: "p_hash u \<noteq> []" "rc_of (parseHashParams env (p_hash u)) = Some rc"
      and req: "http_request env r type hook params httpHeaders transport = (res, tr)"
      by simp_all
    from request_retrying_trace [OF http_request_reaches_loop [OF req True u]] h
      http_maxRetries_value [OF assms]
    obtain n where "count_list tr MakeRequest \<le> n + 1" "int n \<le> min \<bar>N\<bar> 5" by auto
    then show ?thesis by linarith
  qed
  have vals: "http_maxRetries (Some rc) = Some (min \<bar>N\<bar> 5)"
    "ws_maxReconnects env (Some rc) =
      (if N = 0 then Math_min (Math_abs (MAX_RECONNECTS env)) 5 else Some (min \<bar>N\<bar> 5))"
    "N \<noteq> 0 \<longrightarrow> 1 \<le> min \<bar>N\<bar> 5 \<and> min \<bar>N\<bar> 5 \<le> 5"
    using http_maxRetries_value [OF assms] ws_maxReconnects_value [OF assms, of env] by auto
  show ?thesis
    by (intro conjI vals; rule impI; (erule ws_attempts | erule http_attempts))
qed

lemma example_ws_rc3_constructed:
  "WsRequestor example_env ''acct'' ws_hook_rc3 ''secret'' = Inr example_ws_rc3"
  by (simp add: WsRequestor_def example_env_def ws_hook_rc3_def example_ws_rc3_def example_ws_def
     isAbsoluteUrl_def startsWith_def example_parseUrl_def example_parseHashParams_def
     hashOf_def ws_maxReconnects_def parseInt_prop_def num_or_def Math_abs_def Math_min_def
     retryPolicyValues_of_def trim_def isWhiteSpace_def parseInt_examples)

text \<open>
  Claim C6 as stated fails: \<^verbatim>\<open>rc=0\<close> gives the HTTP retry limit 0, which is below 1, and the
  WebSocket limit 5, which is not \<open>min(|0|, 5)\<close>; with \<^verbatim>\<open>rc=2\<close> an HTTP request whose
  attempts all fail with a retryable status makes 3 attempts, not 2; and the WebSocket
  requestor built for \<^verbatim>\<open>rc=3\<close> makes a connection attempt at each of ten reconnect timers
  after its socket dropped.
\<close>

theorem retry_count_zero_and_extra_attempt:
  "http_maxRetries (Some ''0'') = Some 0 \<and>
   ws_maxReconnects example_env (Some ''0'') = Some 5 \<and>
   http_maxRetries (Some ''2'') = Some 2 \<and>
   count_list (snd (http_request example_env example_http ''verb:hook''
       (HookUrl ''https://app.example/a#rc=2&rp=5xx'') None [] always_500)) MakeRequest = 3 \<and>
   maxReconnects open_ws_rc3 = Some 3 \<and>
   count_list (snd (ws_run example_env ten_failed_reconnects open_ws_rc3)) Connect = 10"
  by code_simp

theorem retry_count_clamped_witness:
  "http_maxRetries (Some ''3'') = Some 3 \<and>
   ws_maxReconnects example_env (Some ''3'') = Some 3 \<and>
   maxReconnects example_ws_rc3 = Some 3 \<and>
   count_list (snd (snd (request example_env ''session:new'' (HookUrl ''wss://app.example/ws#rc=3'')
       (Some []) [] ''m1'' never_connects example_ws_rc3))) Connect \<le> 4 \<and>
   count_list (snd (http_request example_env example_http ''verb:hook''
       (HookUrl ''https://app.example/a#rc=3&rp=5xx'') None [] always_500)) MakeRequest \<le> 4"
proof -
  let ?wsreq = "request example_env ''session:new'' (HookUrl ''wss://app.example/ws#rc=3'')
       (Some []) [] ''m1'' never_connects example_ws_rc3"
  let ?httpreq = "http_request example_env example_http ''verb:hook''
       (HookUrl ''https://app.example/a#rc=3&rp=5xx'') None [] always_500"
  let ?wsurl = "\<lparr>p_protocol = ''wss'', p_resource = ''app.example'', p_port = [], p_pathname = ''/a'',
          p_query = [], p_hash = ''rc=3''\<rparr>"
  let ?httpurl = "\<lparr>p_protocol = ''https'', p_resource = ''app.example'', p_port = [], p_pathname = ''/a'',
          p_query = [], p_hash = ''rc=3&rp=5xx''\<rparr>"
  have p: "parseInt ''3'' = Some 3" by (rule parseInt_examples)
  have w: "?wsreq = (fst ?wsreq, fst (snd ?wsreq), snd (snd ?wsreq))" by simp
  have wu: "parseUrl example_env (h_url ws_hook_rc3) = Inr ?wsurl"
    by (simp add: example_env_def example_parseUrl_def hashOf_def ws_hook_rc3_def)
  have wh: "map_of (parseHashParams example_env ''rc=3'') ''rc'' = Some ''3''"
    by (simp add: example_env_def example_parseHashParams_def)
  have u: "parseUrl example_env
      (if isRelativeUrl (hook_url (HookUrl ''https://app.example/a#rc=3&rp=5xx''))
       then hr_baseUrl example_http @ hook_url (HookUrl ''https://app.example/a#rc=3&rp=5xx'')
       else hook_url (HookUrl ''https://app.example/a#rc=3&rp=5xx'')) = Inr ?httpurl"
    by (simp add: example_env_def example_parseUrl_def hashOf_def isRelativeUrl_def isAbsoluteUrl_def
        startsWith_def hook_url_def)
  have h: "rc_of (parseHashParams example_env ''rc=3&rp=5xx'') = Some ''3''"
    by (simp add: example_env_def example_parseHashParams_def rc_of_def)
  have q: "?httpreq = (fst ?httpreq, snd ?httpreq)" by simp
  note ws_inst = retry_count_clamped [OF p, where env = example_env and acct = "''acct''" and h = ws_hook_rc3
      and sec = "''secret''" and w = example_ws_rc3 and u = ?wsurl and type = "''session:new''"
      and hook = "HookUrl ''wss://app.example/ws#rc=3''" and params = "Some []" and httpHeaders = "[]"
      and msgid = "''m1''" and attempt = never_connects and calls = "[]"
      and res = "fst ?wsreq" and s' = "fst (snd ?wsreq)" and tr = "snd (snd ?wsreq)"
      and r = example_http and transport = always_500]
  from ws_inst have limits: "http_maxRetries (Some ''3'') = Some 3"
    "ws_maxReconnects example_env (Some ''3'') = Some 3"
    by simp_all
  have "maxReconnects example_ws_rc3 = ws_maxReconnects example_env (Some ''3'') \<and>
        maxReconnects (fst (ws_run example_env [] example_ws_rc3)) = ws_maxReconnects example_env (Some ''3'') \<and>
        (case ws_maxReconnects example_env (Some ''3'') of
           None \<Rightarrow> count_list (snd (snd ?wsreq)) Connect = 0
         | Some L \<Rightarrow> count_list (snd (snd ?wsreq)) Connect \<le> nat L + 1)"
    by (rule ws_inst [THEN conjunct2, THEN conjunct2, THEN conjunct2, THEN conjunct1, THEN mp])
       (use example_ws_rc3_constructed wu wh w in simp)
  with limits have "http_maxRetries (Some ''3'') = Some 3" "ws_maxReconnects example_env (Some ''3'') = Some 3"
    "maxReconnects example_ws_rc3 = Some 3"
    "count_list (snd (snd ?wsreq)) Connect \<le> 4"
    by simp_all
  moreover
  from retry_count_clamped [OF p, where env = example_env and u = ?httpurl and type = "''verb:hook''"
      and hook = "HookUrl ''https://app.example/a#rc=3&rp=5xx''" and params = None and httpHeaders = "[]"
      and res = "fst ?httpreq" and tr = "snd ?httpreq" and r = example_http and transport = always_500
      and acct = "''acct''" and h = ws_hook_rc3 and sec = "''secret''" and w = example_ws_rc3
      and msgid = "''m1''" and attempt = never_connects and calls = "[]" and s' = example_ws_rc3]
    u h q
  have "count_list (snd ?httpreq) MakeRequest \<le> 4"
    by simp
  ultimately show ?thesis by simp
qed

subsection \<open>The backoff between retries\<close>











subsection \<open>After a graceful close\<close>

lemma closedGracefully_clearTimeout [simp]: "closedGracefully (clearTimeout t s) = closedGracefully s"
  by (simp add: clearTimeout_def)

lemma closedGracefully_settle [simp]: "closedGracefully (settle p out s) = closedGracefully s"
  by (simp add: settle_def)

lemma closedGracefully_success [simp]: "closedGracefully (success e response s) = closedGracefully s"
  by (simp add: success_def Let_def split: option.splits)

lemma closedGracefully_failure [simp]: "closedGracefully (failure e err s) = closedGracefully s"
  by (simp add: failure_def Let_def split: option.splits)

lemma closedGracefully_responseTimeout [simp]:
  "closedGracefully (responseTimeout t s) = closedGracefully s"
  by (simp add: responseTimeout_def Let_def split: option.splits)

lemma closedGracefully_recvAck [simp]: "closedGracefully (recvAck msgid data s) = closedGracefully s"
  by (simp add: recvAck_def Let_def split: option.splits json.splits)

lemma closedGracefully_clearPendingLoop [simp]:
  "closedGracefully (fst (clearPendingLoop es s)) = closedGracefully s"
  by (induction es s rule: clearPendingLoop.induct) (simp_all add: Let_def)

lemma closedGracefully_clearPendingMessages [simp]:
  "closedGracefully (fst (clearPendingMessages s)) = closedGracefully s"
proof -
  obtain s1 e where c: "clearPendingLoop (messagesInFlight s) s = (s1, e)" by (cases "clearPendingLoop (messagesInFlight s) s")
  have "closedGracefully (fst (clearPendingLoop (messagesInFlight s) s)) = closedGracefully s"
    by simp
  with c show ?thesis by (simp add: clearPendingMessages_def split: option.splits)
qed
















subsection \<open>Acks and response timeouts\<close>

lemma mif_get_simps [simp]:
  "mif_get (s\<lparr>initMsgId := i\<rparr>) = mif_get s"
  "mif_get (s\<lparr>timers := tm\<rparr>) = mif_get s"
  "mif_get (s\<lparr>promises := pr\<rparr>) = mif_get s"
  by (simp_all add: mif_get_def fun_eq_iff)

lemma promises_settle:
  "promises (settle p out s) q =
     (if q = p \<and> promises s p = Pending then out else promises s q)"
  by (simp add: settle_def)

lemma settle_fields [simp]:
  "timers (settle p out s) = timers s"
  "messagesInFlight (settle p out s) = messagesInFlight s"
  "initMsgId (settle p out s) = initMsgId s"
  "reconnectPromise (settle p out s) = reconnectPromise s"
  by (simp_all add: settle_def)

lemma success_entry:
  assumes "promises s p = Pending"
  shows "promises (success \<lparr>timer = t, promise = p\<rparr> data s) p = Resolved data \<and>
         timers (success \<lparr>timer = t, promise = p\<rparr> data s) t = None \<and>
         messagesInFlight (success \<lparr>timer = t, promise = p\<rparr> data s) = messagesInFlight s \<and>
         initMsgId (success \<lparr>timer = t, promise = p\<rparr> data s) = initMsgId s"
  using assms
  by (simp add: success_def Let_def promises_settle clearTimeout_def split: option.splits)


lemma recvAck_resolves:
  assumes "mif_get s m = Some \<lparr>timer = t, promise = p\<rparr>" and "promises s p = Pending"
  shows "promises (recvAck (JStr m) data s) p = Resolved data \<and>
         timers (recvAck (JStr m) data s) t = None \<and>
         map_of (messagesInFlight (recvAck (JStr m) data s)) m = None \<and>
         initMsgId (recvAck (JStr m) data s) = None"
proof -
  let ?s0 = "s\<lparr>initMsgId := None, messagesInFlight := AList.delete m (messagesInFlight s)\<rparr>"
  have "promises ?s0 p = Pending" using assms(2) by simp
  from success_entry [OF this, of t data] assms(1)
  show ?thesis by (simp add: recvAck_def Let_def delete_conv')
qed

lemma recvAck_unknown:
  assumes "mif_get s m = None"
  shows "recvAck (JStr m) data s = s\<lparr>initMsgId := None\<rparr>"
  using assms by (simp add: recvAck_def Let_def)


lemma setCallSid_fields [simp]:
  "ws (setCallSid ps s) = ws s"
  "nextHandle (setCallSid ps s) = nextHandle s"
  "reconnectPromise (setCallSid ps s) = reconnectPromise s"
  "promises (setCallSid ps s) = promises s"
  "timers (setCallSid ps s) = timers s"
  "messagesInFlight (setCallSid ps s) = messagesInFlight s"
  "initMsgId (setCallSid ps s) = initMsgId s"
  by (simp_all add: setCallSid_def)



lemma request_head_ws:
  assumes "request_head env type hook params httpHeaders s = Inr s1"
  shows "ws s1 = ws s"
  using assms
  by (auto simp: request_head_def Let_def newReconnectPromise_def split: if_splits prod.splits)

lemma request_connected:
  assumes "ws s \<noteq> None"
  shows "request env type hook params httpHeaders msgid attempt s =
           request_ws env type hook params httpHeaders msgid s"
proof (cases "request_head env type hook params httpHeaders s")
  case (Inl a)
  then show ?thesis by (simp add: request_def request_ws_def)
next
  case (Inr s1)
  with request_head_ws [OF Inr] assms show ?thesis by (auto simp: request_def request_ws_def)
qed






subsection \<open>Reconnecting before the ack to \<^verbatim>\<open>session:new\<close>\<close>

lemma newReconnectPromise_fields [simp]:
  "ws (newReconnectPromise s) = ws s"
  "messagesInFlight (newReconnectPromise s) = messagesInFlight s"
  "initMsgId (newReconnectPromise s) = initMsgId s"
  "sessionData (newReconnectPromise s) = sessionData s"
  "timers (newReconnectPromise s) = timers s"
  "mif_get (newReconnectPromise s) = mif_get s"
  by (simp_all add: newReconnectPromise_def mif_get_def fun_eq_iff)

lemma promises_newReconnectPromise:
  "promises (newReconnectPromise s) p = (if p = nextHandle s then Pending else promises s p)"
  by (simp add: newReconnectPromise_def)

lemma rekey_entry:
  assumes "initMsgId s = Some a" and "b \<noteq> a"
  shows "mif_get (rekey b s) b = mif_get s a \<and> map_of (messagesInFlight (rekey b s)) a = None \<and>
         initMsgId (rekey b s) = Some b \<and> promises (rekey b s) = promises s"
  using assms by (simp add: rekey_def mif_get_def update_conv' delete_conv')

lemma request_reconnect:
  assumes "''session:reconnect'' \<in> set (HookMsgTypes env)"
    and "\<not> maliciousClient s" and "\<not> closedGracefully s" and "ws s \<noteq> None"
    and "\<not> (isAbsoluteUrl (hook_url hook) \<and> startsWith (hook_url hook) ''http'')"
    and "hook_url hook \<noteq> []"
    and "initMsgId s \<noteq> None"
  shows "request env ''session:reconnect'' hook params httpHeaders b attempt s =
     (Returned_undefined, rekey b (newReconnectPromise s),
      [WsSend (frame_of ''session:reconnect'' b hook (sessionData s) httpHeaders (newReconnectPromise s))])"
proof -
  have head: "request_head env ''session:reconnect'' hook params httpHeaders s = Inr (newReconnectPromise s)"
    using assms by (auto simp: request_head_def Let_def)
  have send: "request_send env ''session:reconnect'' hook params httpHeaders b (newReconnectPromise s) =
      send_message ''session:reconnect'' hook (sessionData s) httpHeaders b (newReconnectPromise s)"
    using assms by (auto simp: request_send_def Let_def)
  have "send_message ''session:reconnect'' hook (sessionData s) httpHeaders b (newReconnectPromise s) =
     (Returned_undefined, rekey b (newReconnectPromise s),
      [WsSend (frame_of ''session:reconnect'' b hook (sessionData s) httpHeaders (newReconnectPromise s))])"
    using assms(7) by (simp add: send_message_def Let_def)
  with head send show ?thesis
    by (simp add: request_connected [OF assms(4)] request_ws_def)
qed

text \<open>
  Claim C3, as amended. When \<^verbatim>\<open>session:reconnect\<close> is sent on the new socket while
  \<^verbatim>\<open>_initMsgId\<close> still names the \<^verbatim>\<open>session:new\<close> that was not acked, whose entry is in flight
  with its promise pending, the frame is sent as a simple notification carrying the
  cached session data, the entry is deleted under the original \<^verbatim>\<open>msgid\<close> and stored
  under the new one, and \<^verbatim>\<open>_initMsgId\<close> becomes the new \<^verbatim>\<open>msgid\<close>. A subsequent ack carrying
  the new \<^verbatim>\<open>msgid\<close> resolves the original \<^verbatim>\<open>session:new\<close> promise with its data and removes
  the entry. An ack carrying the original \<^verbatim>\<open>msgid\<close> finds no entry: it is discarded, the
  promise stays pending and the entry stays under the new \<^verbatim>\<open>msgid\<close>.
\<close>

theorem reconnect_rekeys_pending_session_new:
  assumes "''session:reconnect'' \<in> set (HookMsgTypes env)"
    and "\<not> maliciousClient s" and "\<not> closedGracefully s" and "ws s \<noteq> None"
    and "\<not> (isAbsoluteUrl (hook_url hook) \<and> startsWith (hook_url hook) ''http'')"
    and "hook_url hook \<noteq> []"
    and "initMsgId s = Some a" and "mif_get s a = Some \<lparr>timer = t, promise = p\<rparr>"
    and "promises s p = Pending" and "b \<noteq> a"
    and "request env ''session:reconnect'' hook params httpHeaders b attempt s = (res, s1, effs)"
  shows "res = Returned_undefined \<and>
     effs = [WsSend (frame_of ''session:reconnect'' b hook (sessionData s) httpHeaders (newReconnectPromise s))] \<and>
     map_of (messagesInFlight s1) a = None \<and>
     mif_get s1 b = Some \<lparr>timer = t, promise = p\<rparr> \<and>
     initMsgId s1 = Some b \<and>
     promises (recvAck (JStr b) data s1) p = Resolved data \<and>
     map_of (messagesInFlight (recvAck (JStr b) data s1)) b = None \<and>
     promises (recvAck (JStr a) data s1) p = Pending \<and>
     mif_get (recvAck (JStr a) data s1) b = Some \<lparr>timer = t, promise = p\<rparr>"
proof -
  from assms(7) have "initMsgId s \<noteq> None" by simp
  from request_reconnect [OF assms(1-6) this, of params httpHeaders b attempt] assms(11)
  have r: "res = Returned_undefined" "s1 = rekey b (newReconnectPromise s)"
    "effs = [WsSend (frame_of ''session:reconnect'' b hook (sessionData s) httpHeaders (newReconnectPromise s))]"
    by simp_all
  have i: "initMsgId (newReconnectPromise s) = Some a" using assms(7) by simp
  from rekey_entry [OF i assms(10)] r(2) assms(8)
  have e: "mif_get s1 b = Some \<lparr>timer = t, promise = p\<rparr>" "map_of (messagesInFlight s1) a = None"
    "initMsgId s1 = Some b" "promises s1 = promises (newReconnectPromise s)"
    by simp_all
  from e(4) assms(9) have pend: "promises s1 p = Pending"
    by (simp add: promises_newReconnectPromise)
  from e(2) have unknown: "mif_get s1 a = None" by (simp add: mif_get_def)
  from recvAck_resolves [OF e(1) pend, of data] recvAck_unknown [OF unknown, of data] r e pend
  show ?thesis by simp
qed

text \<open>
  Claim C3 as stated fails for the original \<^verbatim>\<open>msgid\<close>: a \<^verbatim>\<open>session:new\<close> with id \<^verbatim>\<open>A\<close> is sent,
  the socket drops, the requestor reconnects and sends \<^verbatim>\<open>session:reconnect\<close> with id \<^verbatim>\<open>B\<close>, and
  the far end acks \<^verbatim>\<open>A\<close>. The promise of the \<^verbatim>\<open>session:new\<close> is still pending and the entry
  is still in flight under \<^verbatim>\<open>B\<close>.
\<close>

theorem ack_to_original_msgid_is_discarded:
  "fst (request example_env ''session:new'' (HookUrl ''wss://app.example/ws'') session_params [] ''A''
          never_connects open_ws) = Returned_promise 0 \<and>
   promises (fst (ws_run example_env reconnect_then_ack_A open_ws)) 0 = Pending \<and>
   map fst (messagesInFlight (fst (ws_run example_env reconnect_then_ack_A open_ws))) = [''B'']"
  by code_simp

lemma reopened_ws_facts:
  "''session:reconnect'' \<in> set (HookMsgTypes example_env)"
  "\<not> maliciousClient reopened_ws" "\<not> closedGracefully reopened_ws" "ws reopened_ws \<noteq> None"
  "\<not> (isAbsoluteUrl (hook_url (HookUrl ''wss://app.example/ws'')) \<and>
      startsWith (hook_url (HookUrl ''wss://app.example/ws'')) ''http'')"
  "hook_url (HookUrl ''wss://app.example/ws'') \<noteq> []"
  "initMsgId reopened_ws = Some ''A''"
  "mif_get reopened_ws ''A'' = Some \<lparr>timer = 1, promise = 0\<rparr>"
  "promises reopened_ws 0 = Pending"
  "''B'' \<noteq> ''A''"
  by (code_simp+)

theorem reconnect_rekeys_pending_session_new_witness:
  "fst (request example_env ''session:reconnect'' (HookUrl ''wss://app.example/ws'') None [] ''B''
          never_connects reopened_ws) = Returned_undefined \<and>
   mif_get (fst (snd (request example_env ''session:reconnect'' (HookUrl ''wss://app.example/ws'') None []
          ''B'' never_connects reopened_ws))) ''B'' = Some \<lparr>timer = 1, promise = 0\<rparr> \<and>
   promises (recvAck (JStr ''B'') (Some (JArr []))
      (fst (snd (request example_env ''session:reconnect'' (HookUrl ''wss://app.example/ws'') None [] ''B''
          never_connects reopened_ws)))) 0 = Resolved (Some (JArr [])) \<and>
   promises (recvAck (JStr ''A'') (Some (JArr []))
      (fst (snd (request example_env ''session:reconnect'' (HookUrl ''wss://app.example/ws'') None [] ''B''
          never_connects reopened_ws)))) 0 = Pending"
proof -
  let ?req = "request example_env ''session:reconnect'' (HookUrl ''wss://app.example/ws'') None [] ''B''
          never_connects reopened_ws"
  have r: "?req = (fst ?req, fst (snd ?req), snd (snd ?req))" by simp
  from reconnect_rekeys_pending_session_new [OF reopened_ws_facts r, of "Some (JArr [])"]
  show ?thesis by simp
qed

subsection \<open>Binary frames\<close>

text \<open>
  Claim C1 is what \<^verbatim>\<open>_onMessage\<close> sets out to do, but its guard reads \<^verbatim>\<open>this.isBinary\<close>, a
  property that is never set, instead of its parameter \<^verbatim>\<open>isBinary\<close>. A binary frame is
  therefore handled as a text frame. One that carries the JSON of an ack is processed as
  an ack: \<^verbatim>\<open>maliciousClient\<close> stays false, the socket is not closed, and a later
  \<^verbatim>\<open>call:status\<close> is sent on the socket. One that is not JSON is answered with a
  \<^verbatim>\<open>jambonz:error\<close> frame on the same socket, again without marking the peer or closing.
\<close>

theorem binary_frame_is_handled_as_text:
  "maliciousClient (fst (onMessage example_env (ack_text ''A'') (Some ack_A) True [] ''C'' never_connects
      open_ws)) = False \<and>
   fst (snd (onMessage example_env (ack_text ''A'') (Some ack_A) True [] ''C'' never_connects open_ws)) = [] \<and>
   snd (snd (request example_env ''call:status'' (HookUrl ''/status'') None [] ''D'' never_connects
     (fst (onMessage example_env (ack_text ''A'') (Some ack_A) True [] ''C'' never_connects open_ws)))) =
     [WsSend \<lparr>f_type = ''call:status'', f_msgid = ''D'', f_call_sid = None, f_hook = None, f_data = [],
              f_b3 = None\<rparr>] \<and>
   maliciousClient (fst (onMessage example_env [CHR 0x01, CHR 0x02] None True ''Unexpected token'' ''C''
      never_connects open_ws)) = False \<and>
   fst (snd (onMessage example_env [CHR 0x01, CHR 0x02] None True ''Unexpected token'' ''C'' never_connects
      open_ws)) =
     [WriteAlert,
      WsSend \<lparr>f_type = ''jambonz:error'', f_msgid = ''C'', f_call_sid = None, f_hook = None,
              f_data = [(''msg'', JStr ''InvalidMessage''), (''details'', JStr ''Unexpected token''),
                        (''content'', JStr [CHR 0x01, CHR 0x02])],
              f_b3 = None\<rparr>]"
  by code_simp

subsection \<open>The snake-cased body\<close>




lemma call_params_encoded:
  "snakeCaseKeys camel_to_snake call_params EXCLUDES =
     [(''call_sid'', JStr ''call-1''),
      (''customerData'', JObj [(''orderId'', JNum 7), (''nestedThing'', JObj [(''innerKey'', JBool True)])]),
      (''sip_status'', JNum 200)]"
  by code_simp


end
